theory Spec2Isabelle
  imports Complex_Main "HOL-Library.Word" "HOL-Library.Code_Target_Numeral"
begin

unbundle bit_operations_syntax

text \<open>
  A shallow embedding of the upload and retrieval core of the image store: the chunk codec
  (\<open>services/chunking.ts\<close>), the quota ledger (\<open>services/quota.ts\<close>), the orchestration of
  uploads and reads (\<open>services/upload.ts\<close>) and the storage backend \<open>ArkivStorage\<close>.
  Asynchronous calls are modelled in their sequential order;
  what the outside world decides (random identifiers, the clock, whether the ledger
  answers) is an explicit input; an exception is a value of an error type.
\<close>

section \<open>Bytes, SHA-256 and the text encodings of Node's Buffer\<close>

text \<open>
  A \<open>Buffer\<close> is a list of bytes. The digest is the SHA-256 of FIPS 180-4, which
  \<open>crypto.createHash('sha256')\<close> computes. Its 32-bit words are integers with the
  reduction modulo \<open>2 ^ 32\<close> written out, so that a digest of a concrete buffer is
  computed by rewriting. The round constants and the initial hash value are written in
  decimal.
\<close>

type_synonym byte = "8 word"
type_synonym Buffer = "byte list"
type_synonym u32 = int

definition add32 :: "u32 \<Rightarrow> u32 \<Rightarrow> u32" where
  "add32 x y = (x + y) mod 4294967296"

definition rotr :: "nat \<Rightarrow> u32 \<Rightarrow> u32" where
  "rotr n x = drop_bit n x OR take_bit 32 (push_bit (32 - n) x)"

definition Ch :: "u32 \<Rightarrow> u32 \<Rightarrow> u32 \<Rightarrow> u32" where
  "Ch x y z = (x AND y) XOR ((x XOR 4294967295) AND z)"

definition Maj :: "u32 \<Rightarrow> u32 \<Rightarrow> u32 \<Rightarrow> u32" where
  "Maj x y z = (x AND y) XOR (x AND z) XOR (y AND z)"

definition Sigma0 :: "u32 \<Rightarrow> u32" where
  "Sigma0 x = rotr 2 x XOR rotr 13 x XOR rotr 22 x"

definition Sigma1 :: "u32 \<Rightarrow> u32" where
  "Sigma1 x = rotr 6 x XOR rotr 11 x XOR rotr 25 x"

definition sigma0 :: "u32 \<Rightarrow> u32" where
  "sigma0 x = rotr 7 x XOR rotr 18 x XOR drop_bit 3 x"

definition sigma1 :: "u32 \<Rightarrow> u32" where
  "sigma1 x = rotr 17 x XOR rotr 19 x XOR drop_bit 10 x"

definition K256 :: "u32 list" where
  "K256 =
   [1116352408, 1899447441, 3049323471, 3921009573, 961987163, 1508970993, 2453635748, 2870763221,
    3624381080, 310598401, 607225278, 1426881987, 1925078388, 2162078206, 2614888103, 3248222580,
    3835390401, 4022224774, 264347078, 604807628, 770255983, 1249150122, 1555081692, 1996064986,
    2554220882, 2821834349, 2952996808, 3210313671, 3336571891, 3584528711, 113926993, 338241895,
    666307205, 773529912, 1294757372, 1396182291, 1695183700, 1986661051, 2177026350, 2456956037,
    2730485921, 2820302411, 3259730800, 3345764771, 3516065817, 3600352804, 4094571909, 275423344,
    430227734, 506948616, 659060556, 883997877, 958139571, 1322822218, 1537002063, 1747873779,
    1955562222, 2024104815, 2227730452, 2361852424, 2428436474, 2756734187, 3204031479, 3329325298]"

definition H256_init :: "u32 list" where
  "H256_init =
   [1779033703, 3144134277, 1013904242, 2773480762, 1359893119, 2600822924, 528734635, 1541459225]"

definition be32 :: "nat \<Rightarrow> Buffer" where
  "be32 n = [of_nat (n div 16777216 mod 256), of_nat (n div 65536 mod 256),
             of_nat (n div 256 mod 256), of_nat (n mod 256)]"

definition be64 :: "nat \<Rightarrow> Buffer" where
  "be64 n = be32 (n div 4294967296) @ be32 (n mod 4294967296)"

text \<open>Padding: the bit 1, zeros up to 56 modulo 64 bytes, the bit length on 64 bits.\<close>

definition sha_pad :: "Buffer \<Rightarrow> Buffer" where
  "sha_pad m =
     m @ [0x80] @ replicate ((119 - length m mod 64) mod 64) 0 @ be64 (8 * length m)"

fun be_words :: "Buffer \<Rightarrow> u32 list" where
  "be_words (a # b # c # d # rest) =
     (uint a * 16777216 + uint b * 65536 + uint c * 256 + uint d) # be_words rest"
| "be_words _ = []"

text \<open>
  The message schedule, newest word first: one new word for each of the round constants
  16 to 63, which serve as the loop counter.
\<close>

fun extend_schedule :: "u32 list \<Rightarrow> u32 list \<Rightarrow> u32 list" where
  "extend_schedule [] ws = ws"
| "extend_schedule (k # ks) ws =
     extend_schedule ks
       (add32 (add32 (add32 (sigma1 (ws ! 1)) (ws ! 6)) (sigma0 (ws ! 14))) (ws ! 15) # ws)"

definition schedule :: "u32 list \<Rightarrow> u32 list" where
  "schedule block = rev (extend_schedule (drop 16 K256) (rev block))"

fun sha_round :: "u32 list \<Rightarrow> u32 \<times> u32 \<Rightarrow> u32 list" where
  "sha_round [a, b, c, d, e, f, g, h] (k, w) =
     (let t1 = add32 (add32 (add32 (add32 h (Sigma1 e)) (Ch e f g)) k) w;
          t2 = add32 (Sigma0 a) (Maj a b c)
      in [add32 t1 t2, a, b, c, add32 d t1, e, f, g])"
| "sha_round st _ = st"

definition compress :: "u32 list \<Rightarrow> u32 list \<Rightarrow> u32 list" where
  "compress hs block = map2 add32 hs (foldl sha_round hs (zip K256 (schedule block)))"

fun sha_blocks :: "u32 list \<Rightarrow> u32 list \<Rightarrow> u32 list" where
  "sha_blocks hs (w0 # w1 # w2 # w3 # w4 # w5 # w6 # w7 # w8 # w9 # w10 # w11 # w12 # w13 # w14 # w15 # ws) =
     sha_blocks (compress hs [w0, w1, w2, w3, w4, w5, w6, w7, w8, w9, w10, w11, w12, w13, w14, w15]) ws"
| "sha_blocks hs _ = hs"

definition sha256 :: "Buffer \<Rightarrow> Buffer" where
  "sha256 m = concat (map (\<lambda>w. be32 (nat w)) (sha_blocks H256_init (be_words (sha_pad m))))"

text \<open>\<open>digest('hex')\<close>: two lowercase hexadecimal digits for each byte.\<close>

definition hex_digit :: "nat \<Rightarrow> char" where
  "hex_digit n = ''0123456789abcdef'' ! (n mod 16)"

definition hex_byte :: "byte \<Rightarrow> string" where
  "hex_byte b = [hex_digit (unat b div 16), hex_digit (unat b mod 16)]"

definition hex :: "Buffer \<Rightarrow> string" where
  "hex bs = concat (map hex_byte bs)"

text \<open>
  Base64, as \<open>buf.toString('base64')\<close> writes it and \<open>Buffer.from(s, 'base64')\<close> reads
  it: the reader stops at the first \<open>=\<close>, skips every character outside the alphabet
  and accepts the URL-safe \<open>-\<close> and \<open>_\<close>.
\<close>

definition b64_alphabet :: string where
  "b64_alphabet = ''ABCDEFGHIJKLMNOPQRSTUVWXYZabcdefghijklmnopqrstuvwxyz0123456789+/''"

definition b64_char :: "nat \<Rightarrow> char" where
  "b64_char n = b64_alphabet ! (n mod 64)"

fun toString_base64 :: "Buffer \<Rightarrow> string" where
  "toString_base64 (a # b # c # rest) =
     (let n = unat a * 65536 + unat b * 256 + unat c
      in b64_char (n div 262144) # b64_char (n div 4096) # b64_char (n div 64) # b64_char n
         # toString_base64 rest)"
| "toString_base64 [a, b] =
     (let n = unat a * 65536 + unat b * 256
      in [b64_char (n div 262144), b64_char (n div 4096), b64_char (n div 64), CHR ''=''])"
| "toString_base64 [a] =
     (let n = unat a * 65536
      in [b64_char (n div 262144), b64_char (n div 4096), CHR ''='', CHR ''=''])"
| "toString_base64 [] = []"

fun index_of :: "'a \<Rightarrow> 'a list \<Rightarrow> nat option" where
  "index_of x [] = None"
| "index_of x (y # ys) = (if x = y then Some 0 else map_option Suc (index_of x ys))"

definition b64_value :: "char \<Rightarrow> nat option" where
  "b64_value c =
     (if c = CHR ''-'' then Some 62 else if c = CHR ''_'' then Some 63
      else index_of c b64_alphabet)"

fun b64_sextets :: "string \<Rightarrow> nat list" where
  "b64_sextets [] = []"
| "b64_sextets (c # cs) =
     (if c = CHR ''='' then []
      else case b64_value c of None \<Rightarrow> b64_sextets cs | Some v \<Rightarrow> v # b64_sextets cs)"

fun b64_bytes :: "nat list \<Rightarrow> Buffer" where
  "b64_bytes (p # q # r # s # rest) =
     (let n = p * 262144 + q * 4096 + r * 64 + s
      in of_nat (n div 65536) # of_nat (n div 256 mod 256) # of_nat (n mod 256) # b64_bytes rest)"
| "b64_bytes [p, q, r] =
     (let n = p * 262144 + q * 4096 + r * 64
      in [of_nat (n div 65536), of_nat (n div 256 mod 256)])"
| "b64_bytes [p, q] = [of_nat ((p * 262144 + q * 4096) div 65536)]"
| "b64_bytes _ = []"

definition from_base64 :: "string \<Rightarrow> Buffer" where
  "from_base64 s = b64_bytes (b64_sextets s)"

section \<open>Types and configuration (types.ts)\<close>

text \<open>
  Field names carry a prefix where two interfaces of \<open>types.ts\<close> share a name:
  \<open>ce_\<close> for \<open>ChunkEntity\<close>, \<open>mc_\<close> for \<open>MediaChunk\<close>, \<open>md_\<close> for
  \<open>MediaMetadata\<close>, \<open>us_\<close> for \<open>UploadSession\<close>. Byte counts and lengths are natural
  numbers, block numbers and indices read back from the store are integers; all stay far
  below \<open>2 ^ 53\<close>, where the arithmetic of JavaScript numbers is exact. Dates are
  milliseconds since the epoch.
\<close>

record ChunkEntity =
  ce_id :: string
  ce_media_id :: string
  ce_chunk_index :: int
  ce_data :: Buffer
  ce_checksum :: string
  ce_created_at :: nat
  ce_expiration_block :: int

record MediaChunk =
  mc_media_id :: string
  mc_chunk_index :: int
  mc_data :: string
  mc_checksum :: string
  mc_expiration_block :: int

record MediaMetadata =
  md_media_id :: string
  md_filename :: string
  md_content_type :: string
  md_file_size :: nat
  md_chunk_count :: nat
  md_checksum :: string
  md_created_at :: nat
  md_expiration_block :: int
  md_btl_days :: int

record UploadSession =
  us_media_id :: string
  us_idempotency_key :: string
  us_metadata :: MediaMetadata
  us_chunks_received :: "int set"
  us_completed :: bool

record QuotaInfo =
  used_bytes :: nat
  max_bytes :: nat
  uploads_today :: nat
  max_uploads_per_day :: nat

record Config =
  MAX_FILE_SIZE :: nat
  CHUNK_SIZE :: nat
  DEFAULT_BTL_DAYS :: int
  FREE_TIER_MAX_BYTES :: nat
  FREE_TIER_MAX_UPLOADS_PER_DAY :: nat

definition CONFIG :: Config where
  "CONFIG = \<lparr>MAX_FILE_SIZE = 25 * 1024 * 1024, CHUNK_SIZE = 64 * 1024, DEFAULT_BTL_DAYS = 7,
     FREE_TIER_MAX_BYTES = 100 * 1024 * 1024, FREE_TIER_MAX_UPLOADS_PER_DAY = 10\<rparr>"

text \<open>
  What the outside world supplies during one call: the successive results of
  \<open>crypto.randomUUID()\<close> and of the clock, and whether the ledger accepts the k-th
  \<open>createEntity\<close> and answers the k-th query of the call.
\<close>

record Env =
  randomUUID :: "nat \<Rightarrow> string"
  Date_now :: "nat \<Rightarrow> nat"
  createEntity_ok :: "nat \<Rightarrow> bool"
  query_ok :: "nat \<Rightarrow> bool"

definition skip_draws :: "nat \<Rightarrow> nat \<Rightarrow> Env \<Rightarrow> Env" where
  "skip_draws u d env =
     env\<lparr>randomUUID := \<lambda>k. randomUUID env (k + u), Date_now := \<lambda>k. Date_now env (k + d)\<rparr>"

text \<open>An environment for the examples: numbered identifiers, a running clock, a ledger
  that accepts every call.\<close>

definition example_env :: Env where
  "example_env =
     \<lparr>randomUUID = (\<lambda>k. ''uuid-'' @ [hex_digit k]),
      Date_now = (\<lambda>k. 1700000000000 + k),
      createEntity_ok = (\<lambda>k. True),
      query_ok = (\<lambda>k. True)\<rparr>"

section \<open>ChunkingService (services/chunking.ts)\<close>

definition generateMediaId :: "Env \<Rightarrow> string" where
  "generateMediaId env = randomUUID env 0"

definition calculateChecksum :: "Buffer \<Rightarrow> string" where
  "calculateChecksum data = hex (sha256 data)"

text \<open>\<open>buf.subarray(start, fin)\<close> for \<open>start \<le> fin\<close>; the end is clamped to the length.\<close>

definition subarray :: "Buffer \<Rightarrow> nat \<Rightarrow> nat \<Rightarrow> Buffer" where
  "subarray buf start fin = take (fin - start) (drop start buf)"

text \<open>\<open>Math.ceil(a / b)\<close> on lengths: the division is exact on the reals.\<close>

definition Math_ceil_div :: "nat \<Rightarrow> nat \<Rightarrow> nat" where
  "Math_ceil_div a b = nat \<lceil>real a / real b\<rceil>"

text \<open>
  The \<open>for\<close> loop of \<open>chunkFile\<close>, with the loop variable \<open>i\<close> and the array
  \<open>chunks\<close> as arguments. With a chunk size of 0 and a non-empty buffer the loop never
  ends: the result is \<open>None\<close>.
\<close>

partial_function (option) chunkFile_loop ::
  "Env \<Rightarrow> nat \<Rightarrow> Buffer \<Rightarrow> string \<Rightarrow> int \<Rightarrow> nat \<Rightarrow> ChunkEntity list \<Rightarrow> ChunkEntity list option"
where
  "chunkFile_loop env chunkSize fileBuffer media_id expiration_block i chunks =
     (if i < length fileBuffer then
        chunkFile_loop env chunkSize fileBuffer media_id expiration_block (i + chunkSize)
          (chunks @
            [\<lparr>ce_id = randomUUID env (length chunks),
              ce_media_id = media_id,
              ce_chunk_index = int (i div chunkSize),
              ce_data = subarray fileBuffer i (i + chunkSize),
              ce_checksum = calculateChecksum (subarray fileBuffer i (i + chunkSize)),
              ce_created_at = Date_now env (length chunks),
              ce_expiration_block = expiration_block\<rparr>])
      else Some chunks)"

declare chunkFile_loop.simps [code]

definition chunkFile :: "Config \<Rightarrow> Env \<Rightarrow> Buffer \<Rightarrow> string \<Rightarrow> int \<Rightarrow> ChunkEntity list option" where
  "chunkFile cfg env fileBuffer media_id expiration_block =
     chunkFile_loop env (CHUNK_SIZE cfg) fileBuffer media_id expiration_block 0 []"

text \<open>The record that the k-th iteration of the loop appends.\<close>

definition chunk_at :: "Env \<Rightarrow> nat \<Rightarrow> Buffer \<Rightarrow> string \<Rightarrow> int \<Rightarrow> nat \<Rightarrow> ChunkEntity" where
  "chunk_at env chunkSize fileBuffer media_id expiration_block k =
     \<lparr>ce_id = randomUUID env k,
      ce_media_id = media_id,
      ce_chunk_index = int k,
      ce_data = take chunkSize (drop (k * chunkSize) fileBuffer),
      ce_checksum = calculateChecksum (take chunkSize (drop (k * chunkSize) fileBuffer)),
      ce_created_at = Date_now env k,
      ce_expiration_block = expiration_block\<rparr>"

definition createMetadata ::
  "Config \<Rightarrow> Env \<Rightarrow> string \<Rightarrow> string \<Rightarrow> string \<Rightarrow> Buffer \<Rightarrow> int \<Rightarrow> int \<Rightarrow> MediaMetadata" where
  "createMetadata cfg env media_id original_filename content_type fileBuffer btl_days expiration_block =
     \<lparr>md_media_id = media_id,
      md_filename = original_filename,
      md_content_type = content_type,
      md_file_size = length fileBuffer,
      md_chunk_count = Math_ceil_div (length fileBuffer) (CHUNK_SIZE cfg),
      md_checksum = calculateChecksum fileBuffer,
      md_created_at = Date_now env 0,
      md_expiration_block = expiration_block,
      md_btl_days = btl_days\<rparr>"

text \<open>\<open>Array.prototype.sort\<close> with the comparator \<open>a.chunk_index - b.chunk_index\<close> is a
  stable ascending sort on the index.\<close>

definition reassembleFile :: "ChunkEntity list \<Rightarrow> Buffer" where
  "reassembleFile chunks = concat (map ce_data (sort_key ce_chunk_index chunks))"

definition validateFileIntegrity :: "string \<Rightarrow> Buffer \<Rightarrow> bool" where
  "validateFileIntegrity originalChecksum reassembledBuffer =
     (originalChecksum = calculateChecksum reassembledBuffer)"

section \<open>QuotaService (services/quota.ts)\<close>

type_synonym QuotaService = "string \<rightharpoonup> QuotaInfo"

datatype QuotaReason = QuotaExceeded nat nat | DailyLimitExceeded nat nat

datatype QuotaCheck = Allowed | Denied QuotaReason

definition getUserQuota :: "Config \<Rightarrow> QuotaService \<Rightarrow> string \<Rightarrow> QuotaInfo \<times> QuotaService" where
  "getUserQuota cfg userUsage userId =
     (case userUsage userId of
        None \<Rightarrow>
          (let fresh = \<lparr>used_bytes = 0, max_bytes = FREE_TIER_MAX_BYTES cfg, uploads_today = 0,
                         max_uploads_per_day = FREE_TIER_MAX_UPLOADS_PER_DAY cfg\<rparr>
           in (fresh, userUsage(userId \<mapsto> fresh)))
      | Some quota \<Rightarrow> (quota, userUsage))"

definition checkQuota :: "Config \<Rightarrow> QuotaService \<Rightarrow> string \<Rightarrow> nat \<Rightarrow> QuotaCheck \<times> QuotaService" where
  "checkQuota cfg userUsage userId fileSize =
     (let (quota, userUsage') = getUserQuota cfg userUsage userId
      in if used_bytes quota + fileSize > max_bytes quota then
           (Denied (QuotaExceeded (used_bytes quota) (max_bytes quota)), userUsage')
         else if uploads_today quota \<ge> max_uploads_per_day quota then
           (Denied (DailyLimitExceeded (uploads_today quota) (max_uploads_per_day quota)), userUsage')
         else (Allowed, userUsage'))"

definition updateUsage :: "Config \<Rightarrow> QuotaService \<Rightarrow> string \<Rightarrow> nat \<Rightarrow> QuotaService" where
  "updateUsage cfg userUsage userId fileSize =
     (let (quota, userUsage') = getUserQuota cfg userUsage userId
      in userUsage'(userId \<mapsto>
           quota\<lparr>used_bytes := used_bytes quota + fileSize, uploads_today := uploads_today quota + 1\<rparr>))"

definition getQuotaInfo :: "Config \<Rightarrow> QuotaService \<Rightarrow> string \<Rightarrow> QuotaInfo \<times> QuotaService" where
  "getQuotaInfo cfg userUsage userId = getUserQuota cfg userUsage userId"

text \<open>The counters of a user as \<open>getQuotaInfo\<close> reports them.\<close>

definition quota_of :: "Config \<Rightarrow> QuotaService \<Rightarrow> string \<Rightarrow> QuotaInfo" where
  "quota_of cfg userUsage userId = fst (getQuotaInfo cfg userUsage userId)"

section \<open>ArkivStorage (the class on @arkiv-network/sdk)\<close>

text \<open>
  The sources hold two classes named \<open>ArkivStorage\<close>, with the same public methods.
  \<open>upload.ts\<close> imports the class by the path \<open>../storage/arkiv-storage\<close>; the file
  \<open>storage/arkiv-storage.ts\<close> holds the class built on the package \<open>arkiv-sdk\<close>.
  The other class is built on \<open>@arkiv-network/sdk\<close>; its \<open>storeChunk\<close> takes the
  \<open>ChunkEntity\<close> records that \<open>initiateUpload\<close> passes, and its \<open>storeChunk\<close> and
  \<open>getAllChunks\<close> are the ones the specification refers to. This section embeds that
  second class, and the upload service below runs on it. The two classes persist the
  \<open>chunk_index\<close> of a chunk differently; the \<open>storeChunk\<close> of the first class is
  embedded at the end of the section, as \<open>storeChunk_arkiv_sdk\<close>.

  The ledger is the external collaborator: a list of entities, each with an owner, a
  payload, attributes and an expiry. An entity that expires leaves the list. The JSON
  document of a metadata entity is kept as the record it encodes (\<open>JsonPayload\<close>);
  \<open>RawPayload\<close> is a payload of bytes that are not such a document.
\<close>

datatype AttrValue = StrAttr string | NumAttr int

datatype Payload = RawPayload Buffer | JsonPayload MediaMetadata

record Entity =
  ent_owner :: string
  ent_payload :: "Payload option"
  ent_attributes :: "(string \<times> AttrValue) list"
  ent_contentType :: string
  ent_expiresAtBlock :: "int option"

record CreateEntityParams =
  cp_payload :: Payload
  cp_attributes :: "(string \<times> AttrValue) list"
  cp_contentType :: string
  cp_expiresIn :: int

text \<open>
  The state of an \<open>ArkivStorage\<close>: whether \<open>initializeClient\<close> succeeded, the account
  of the wallet client when there is one, the owner address, the block timing that
  \<open>getBlockTiming\<close> returns, and the ledger.
\<close>

record ArkivStorage =
  initialized :: bool
  walletClient :: "string option"
  ownerAddress :: "string option"
  currentBlock :: int
  blockDuration :: int
  entities :: "Entity list"

datatype StorageError = InitFailed | WalletNotConfigured | CreateEntityFailed | QueryFailed

definition BLOCK_TIME_SECONDS :: int where
  "BLOCK_TIME_SECONDS = 2"

definition BLOCKS_PER_DAY :: int where
  "BLOCKS_PER_DAY = 86400 div BLOCK_TIME_SECONDS"

definition getExpiresInSeconds :: "ArkivStorage \<Rightarrow> int \<Rightarrow> int" where
  "getExpiresInSeconds st targetBlock =
     (let target = max targetBlock 0;
          deltaBlocks = max (target - currentBlock st) 0;
          expiresIn = deltaBlocks * blockDuration st
      in max expiresIn (blockDuration st))"

text \<open>\<open>entity.attributes.find(attr => attr.key === key)?.value\<close>: the first attribute
  with the key.\<close>

definition entityAttribute :: "Entity \<Rightarrow> string \<Rightarrow> AttrValue option" where
  "entityAttribute entity key = map_of (ent_attributes entity) key"

text \<open>
  The ledger's \<open>createEntity\<close>: the new entity belongs to the wallet's account and expires
  \<open>expiresIn\<close> seconds from the current block.
\<close>

definition createEntity :: "ArkivStorage \<Rightarrow> string \<Rightarrow> CreateEntityParams \<Rightarrow> ArkivStorage" where
  "createEntity st account params =
     st\<lparr>entities := entities st @
       [\<lparr>ent_owner = account,
         ent_payload = Some (cp_payload params),
         ent_attributes = cp_attributes params,
         ent_contentType = cp_contentType params,
         ent_expiresAtBlock = Some (currentBlock st + cp_expiresIn params div blockDuration st)\<rparr>]\<rparr>"

text \<open>The query \<open>ownedBy(owner).where([eq('type', t), eq('media_id', m)]).limit(n)\<close>.\<close>

definition has_attr :: "Entity \<Rightarrow> string \<Rightarrow> string \<Rightarrow> bool" where
  "has_attr entity key v = ((key, StrAttr v) \<in> set (ent_attributes entity))"

definition query :: "ArkivStorage \<Rightarrow> string \<Rightarrow> string \<Rightarrow> string \<Rightarrow> nat \<Rightarrow> Entity list" where
  "query st ownerAddr t media_id n =
     take n (filter (\<lambda>entity. ent_owner entity = ownerAddr \<and> has_attr entity ''type'' t
                              \<and> has_attr entity ''media_id'' media_id) (entities st))"

definition storeChunk :: "Env \<Rightarrow> nat \<Rightarrow> ArkivStorage \<Rightarrow> ChunkEntity \<Rightarrow> StorageError + ArkivStorage" where
  "storeChunk env k st chunk =
     (if \<not> initialized st then Inl InitFailed
      else case walletClient st of
        None \<Rightarrow> Inl WalletNotConfigured
      | Some account \<Rightarrow>
          if \<not> createEntity_ok env k then Inl CreateEntityFailed
          else Inr (createEntity st account
            \<lparr>cp_payload = RawPayload (ce_data chunk),
             cp_attributes =
               [(''media_id'', StrAttr (ce_media_id chunk)),
                (''type'', StrAttr ''image_chunk''),
                (''chunk_index'', NumAttr (ce_chunk_index chunk + 1)),
                (''checksum'', StrAttr (ce_checksum chunk))],
             cp_contentType = ''application/octet-stream'',
             cp_expiresIn = getExpiresInSeconds st (ce_expiration_block chunk)\<rparr>))"

text \<open>
  \<open>Number(v)\<close> and \<open>String(v)\<close> on an attribute value. A string of decimal digits is
  the number it writes and the empty string is 0; \<open>Number\<close> of any other string is not
  specified here.
\<close>

definition digit_value :: "char \<Rightarrow> nat option" where
  "digit_value c = index_of c ''0123456789''"

fun parse_digits :: "nat \<Rightarrow> string \<Rightarrow> nat option" where
  "parse_digits acc [] = Some acc"
| "parse_digits acc (c # cs) =
     (case digit_value c of None \<Rightarrow> None | Some d \<Rightarrow> parse_digits (10 * acc + d) cs)"

definition Number_attr :: "AttrValue \<Rightarrow> int" where
  "Number_attr v =
     (case v of NumAttr n \<Rightarrow> n
      | StrAttr s \<Rightarrow> (case parse_digits 0 s of Some n \<Rightarrow> int n | None \<Rightarrow> undefined))"

fun digits_of :: "nat \<Rightarrow> nat \<Rightarrow> string" where
  "digits_of 0 n = []"
| "digits_of (Suc fuel) n =
     (if n < 10 then [hex_digit n] else digits_of fuel (n div 10) @ [hex_digit (n mod 10)])"

definition String_attr :: "AttrValue \<Rightarrow> string" where
  "String_attr v =
     (case v of StrAttr s \<Rightarrow> s
      | NumAttr n \<Rightarrow> (if n < 0 then CHR ''-'' # digits_of (Suc (nat (- n))) (nat (- n))
                      else digits_of (Suc (nat n)) (nat n)))"

text \<open>The bytes of a payload; those of a JSON document are not specified here.\<close>

definition payload_bytes :: "Payload \<Rightarrow> Buffer" where
  "payload_bytes p = (case p of RawPayload b \<Rightarrow> b | JsonPayload _ \<Rightarrow> undefined)"

definition toMediaChunk :: "string \<Rightarrow> Entity \<Rightarrow> MediaChunk" where
  "toMediaChunk media_id entity =
     \<lparr>mc_media_id = media_id,
      mc_chunk_index =
        (case entityAttribute entity ''chunk_index'' of None \<Rightarrow> 0 | Some v \<Rightarrow> Number_attr v),
      mc_data =
        toString_base64 (case ent_payload entity of None \<Rightarrow> [] | Some p \<Rightarrow> payload_bytes p),
      mc_checksum =
        (case entityAttribute entity ''checksum'' of None \<Rightarrow> [] | Some v \<Rightarrow> String_attr v),
      mc_expiration_block = (case ent_expiresAtBlock entity of None \<Rightarrow> 0 | Some b \<Rightarrow> b)\<rparr>"

definition getAllChunks :: "Env \<Rightarrow> nat \<Rightarrow> ArkivStorage \<Rightarrow> string \<Rightarrow> StorageError + MediaChunk list" where
  "getAllChunks env k st media_id =
     (if \<not> initialized st then Inl InitFailed
      else case ownerAddress st of
        None \<Rightarrow> Inr []
      | Some ownerAddr \<Rightarrow>
          if \<not> query_ok env k then Inl QueryFailed
          else Inr (sort_key mc_chunk_index
                 (map (toMediaChunk media_id) (query st ownerAddr ''image_chunk'' media_id 1000))))"

definition storeMetadata :: "Env \<Rightarrow> nat \<Rightarrow> ArkivStorage \<Rightarrow> MediaMetadata \<Rightarrow> StorageError + ArkivStorage" where
  "storeMetadata env k st metadata =
     (if \<not> initialized st then Inl InitFailed
      else case walletClient st of
        None \<Rightarrow> Inl WalletNotConfigured
      | Some account \<Rightarrow>
          if \<not> createEntity_ok env k then Inl CreateEntityFailed
          else Inr (createEntity st account
            \<lparr>cp_payload = JsonPayload metadata,
             cp_attributes =
               [(''media_id'', StrAttr (md_media_id metadata)),
                (''type'', StrAttr ''image_metadata''),
                (''filename'', StrAttr (md_filename metadata)),
                (''content_type'', StrAttr (md_content_type metadata))],
             cp_contentType = ''application/json'',
             cp_expiresIn = getExpiresInSeconds st (md_expiration_block metadata)\<rparr>))"

text \<open>
  \<open>getMetadata\<close> awaits the initialisation outside its \<open>try\<close>, so a failed
  initialisation is thrown; every later failure is caught and gives \<open>null\<close>.
\<close>

definition getMetadata :: "Env \<Rightarrow> nat \<Rightarrow> ArkivStorage \<Rightarrow> string \<Rightarrow> StorageError + MediaMetadata option" where
  "getMetadata env k st media_id =
     (if \<not> initialized st then Inl InitFailed
      else case ownerAddress st of
        None \<Rightarrow> Inr None
      | Some ownerAddr \<Rightarrow>
          if \<not> query_ok env k then Inr None
          else (case query st ownerAddr ''image_metadata'' media_id 1 of
                  [] \<Rightarrow> Inr None
                | entity # _ \<Rightarrow>
                    (case ent_payload entity of
                       None \<Rightarrow> Inr None
                     | Some (RawPayload _) \<Rightarrow> Inr None
                     | Some (JsonPayload metadataJson) \<Rightarrow> Inr (Some metadataJson))))"

definition calculateExpirationBlock :: "Env \<Rightarrow> int \<Rightarrow> int" where
  "calculateExpirationBlock env btlDays =
     int (Date_now env 0) div (BLOCK_TIME_SECONDS * 1000) + btlDays * BLOCKS_PER_DAY"

subsection \<open>storeChunk of the class on arkiv-sdk (storage/arkiv-storage.ts)\<close>

text \<open>
  \<open>n.toString()\<close> on a number, and \<open>createEntities\<close> of that SDK: the new entity has
  string annotations only, no content type, and lives \<open>btl\<close> blocks from the current
  block. \<open>storeChunk\<close> of this class asks for the current block, which cannot fail,
  and writes one entity whose \<open>chunk_index\<close> annotation is
  \<open>chunk.chunk_index.toString()\<close>. \<open>Buffer.from(chunk.data, 'base64')\<close> on the buffer
  that \<open>initiateUpload\<close> passes is a copy of it.
\<close>

definition Number_toString :: "int \<Rightarrow> string" where
  "Number_toString n = String_attr (NumAttr n)"

definition createEntities ::
  "ArkivStorage \<Rightarrow> string \<Rightarrow> int \<Rightarrow> Buffer \<Rightarrow> (string \<times> string) list \<Rightarrow> ArkivStorage" where
  "createEntities st account btl data stringAnnotations =
     st\<lparr>entities := entities st @
       [\<lparr>ent_owner = account,
         ent_payload = Some (RawPayload data),
         ent_attributes = map (\<lambda>(key, v). (key, StrAttr v)) stringAnnotations,
         ent_contentType = [],
         ent_expiresAtBlock = Some (currentBlock st + btl)\<rparr>]\<rparr>"

definition storeChunk_arkiv_sdk ::
  "Env \<Rightarrow> nat \<Rightarrow> ArkivStorage \<Rightarrow> ChunkEntity \<Rightarrow> StorageError + ArkivStorage" where
  "storeChunk_arkiv_sdk env k st chunk =
     (if \<not> initialized st then Inl InitFailed
      else case walletClient st of
        None \<Rightarrow> Inl WalletNotConfigured
      | Some account \<Rightarrow>
          if \<not> createEntity_ok env k then Inl CreateEntityFailed
          else Inr (createEntities st account (ce_expiration_block chunk - currentBlock st)
                 (ce_data chunk)
                 [(''media_id'', ce_media_id chunk),
                  (''type'', ''image_chunk''),
                  (''chunk_index'', Number_toString (ce_chunk_index chunk)),
                  (''checksum'', ce_checksum chunk)]))"

section \<open>UploadService (services/upload.ts)\<close>

record UploadService =
  storage :: ArkivStorage
  quotaService :: QuotaService
  uploadSessions :: "string \<rightharpoonup> UploadSession"

datatype UploadError =
    FileTooLarge nat
  | UnsupportedType
  | QuotaDenied QuotaReason
  | UploadFailed StorageError

datatype GetMediaError =
    MediaNotFound
  | ChunksNotFound
  | IntegrityCheckFailed
  | RetrievalFailed StorageError

definition isValidImageType :: "string \<Rightarrow> bool" where
  "isValidImageType contentType = (contentType \<in> set [''image/jpeg'', ''image/png''])"

definition findExistingSession :: "UploadService \<Rightarrow> string \<Rightarrow> UploadSession option" where
  "findExistingSession svc idempotencyKey = uploadSessions svc idempotencyKey"

definition getUploadStatus :: "UploadService \<Rightarrow> string \<Rightarrow> UploadSession option" where
  "getUploadStatus svc idempotencyKey = uploadSessions svc idempotencyKey"

text \<open>
  The loop \<open>for (const chunk of chunks)\<close> of \<open>initiateUpload\<close>: the k-th chunk is
  stored, then its index is added to the session. A failed write leaves the loop with the
  error, the ledger and the session as they are then.
\<close>

fun storeChunks ::
  "Env \<Rightarrow> nat \<Rightarrow> ArkivStorage \<Rightarrow> UploadSession \<Rightarrow> ChunkEntity list
     \<Rightarrow> StorageError option \<times> ArkivStorage \<times> UploadSession" where
  "storeChunks env k st session [] = (None, st, session)"
| "storeChunks env k st session (chunk # chunks) =
     (case storeChunk env k st chunk of
        Inl e \<Rightarrow> (Some e, st, session)
      | Inr st' \<Rightarrow>
          storeChunks env (Suc k) st'
            (session\<lparr>us_chunks_received :=
               insert (ce_chunk_index chunk) (us_chunks_received session)\<rparr>) chunks)"

text \<open>
  The body of \<open>initiateUpload\<close> after the session lookup has found nothing: the new
  session is registered, then chunks, metadata and quota follow in this order. The
  session object is shared with the map, so its later changes are visible there.
\<close>

definition upload_new ::
  "Config \<Rightarrow> Env \<Rightarrow> UploadService \<Rightarrow> Buffer \<Rightarrow> string \<Rightarrow> string \<Rightarrow> string \<Rightarrow> string \<Rightarrow> int
     \<Rightarrow> ((UploadError + string) \<times> UploadService) option" where
  "upload_new cfg env svc fileBuffer filename contentType idempotencyKey userId btlDays =
     (let media_id = generateMediaId env;
          expiration_block = calculateExpirationBlock env btlDays;
          metadata = createMetadata cfg (skip_draws 1 1 env) media_id filename contentType
                       fileBuffer btlDays expiration_block;
          session = \<lparr>us_media_id = media_id, us_idempotency_key = idempotencyKey,
                     us_metadata = metadata, us_chunks_received = {}, us_completed = False\<rparr>
      in case chunkFile cfg (skip_draws 1 2 env) fileBuffer media_id expiration_block of
           None \<Rightarrow> None
         | Some chunks \<Rightarrow>
             (case storeChunks env 0 (storage svc) session chunks of
                (Some e, st, session') \<Rightarrow>
                  Some (Inl (UploadFailed e),
                        svc\<lparr>storage := st,
                            uploadSessions := (uploadSessions svc)(idempotencyKey \<mapsto> session')\<rparr>)
              | (None, st, session') \<Rightarrow>
                  (case storeMetadata env (length chunks) st metadata of
                     Inl e \<Rightarrow>
                       Some (Inl (UploadFailed e),
                             svc\<lparr>storage := st,
                                 uploadSessions := (uploadSessions svc)(idempotencyKey \<mapsto> session')\<rparr>)
                   | Inr st' \<Rightarrow>
                       Some (Inr media_id,
                             svc\<lparr>storage := st',
                                 uploadSessions := (uploadSessions svc)
                                   (idempotencyKey \<mapsto> session'\<lparr>us_completed := True\<rparr>),
                                 quotaService := updateUsage cfg (quotaService svc) userId
                                                   (length fileBuffer)\<rparr>))))"

definition initiateUpload ::
  "Config \<Rightarrow> Env \<Rightarrow> UploadService \<Rightarrow> Buffer \<Rightarrow> string \<Rightarrow> string \<Rightarrow> string \<Rightarrow> string \<Rightarrow> int
     \<Rightarrow> ((UploadError + string) \<times> UploadService) option" where
  "initiateUpload cfg env svc fileBuffer filename contentType idempotencyKey userId btlDays =
     (if length fileBuffer > MAX_FILE_SIZE cfg then
        Some (Inl (FileTooLarge (MAX_FILE_SIZE cfg)), svc)
      else if \<not> isValidImageType contentType then Some (Inl UnsupportedType, svc)
      else
        (case checkQuota cfg (quotaService svc) userId (length fileBuffer) of
           (Denied reason, userUsage) \<Rightarrow>
             Some (Inl (QuotaDenied reason), svc\<lparr>quotaService := userUsage\<rparr>)
         | (Allowed, userUsage) \<Rightarrow>
             (case findExistingSession svc idempotencyKey of
                Some existingSession \<Rightarrow>
                  Some (Inr (us_media_id existingSession), svc\<lparr>quotaService := userUsage\<rparr>)
              | None \<Rightarrow>
                  upload_new cfg env (svc\<lparr>quotaService := userUsage\<rparr>) fileBuffer filename
                    contentType idempotencyKey userId btlDays)))"

definition toChunkEntity :: "Env \<Rightarrow> nat \<times> MediaChunk \<Rightarrow> ChunkEntity" where
  "toChunkEntity env kc =
     (case kc of (k, chunk) \<Rightarrow>
        \<lparr>ce_id = [],
         ce_media_id = mc_media_id chunk,
         ce_chunk_index = mc_chunk_index chunk,
         ce_data = from_base64 (mc_data chunk),
         ce_checksum = mc_checksum chunk,
         ce_created_at = Date_now env k,
         ce_expiration_block = mc_expiration_block chunk\<rparr>)"

definition getMedia :: "Env \<Rightarrow> UploadService \<Rightarrow> string \<Rightarrow> GetMediaError + Buffer \<times> MediaMetadata" where
  "getMedia env svc media_id =
     (case getMetadata env 0 (storage svc) media_id of
        Inl e \<Rightarrow> Inl (RetrievalFailed e)
      | Inr None \<Rightarrow> Inl MediaNotFound
      | Inr (Some metadata) \<Rightarrow>
          (case getAllChunks env 1 (storage svc) media_id of
             Inl e \<Rightarrow> Inl (RetrievalFailed e)
           | Inr chunks \<Rightarrow>
               if length chunks = 0 then Inl ChunksNotFound
               else
                 (let chunkEntities = map (toChunkEntity env) (enumerate 0 chunks);
                      reassembledBuffer = reassembleFile chunkEntities
                  in if \<not> validateFileIntegrity (md_checksum metadata) reassembledBuffer
                     then Inl IntegrityCheckFailed
                     else Inr (reassembledBuffer, metadata))))"

section \<open>Auxiliary notions for the statements\<close>

text \<open>The entities that \<open>storeChunk\<close> and \<open>storeMetadata\<close> make the ledger create.\<close>

definition chunk_entity :: "ArkivStorage \<Rightarrow> string \<Rightarrow> ChunkEntity \<Rightarrow> Entity" where
  "chunk_entity st account chunk =
     \<lparr>ent_owner = account,
      ent_payload = Some (RawPayload (ce_data chunk)),
      ent_attributes =
        [(''media_id'', StrAttr (ce_media_id chunk)),
         (''type'', StrAttr ''image_chunk''),
         (''chunk_index'', NumAttr (ce_chunk_index chunk + 1)),
         (''checksum'', StrAttr (ce_checksum chunk))],
      ent_contentType = ''application/octet-stream'',
      ent_expiresAtBlock =
        Some (currentBlock st + getExpiresInSeconds st (ce_expiration_block chunk) div blockDuration st)\<rparr>"

definition metadata_entity :: "ArkivStorage \<Rightarrow> string \<Rightarrow> MediaMetadata \<Rightarrow> Entity" where
  "metadata_entity st account metadata =
     \<lparr>ent_owner = account,
      ent_payload = Some (JsonPayload metadata),
      ent_attributes =
        [(''media_id'', StrAttr (md_media_id metadata)),
         (''type'', StrAttr ''image_metadata''),
         (''filename'', StrAttr (md_filename metadata)),
         (''content_type'', StrAttr (md_content_type metadata))],
      ent_contentType = ''application/json'',
      ent_expiresAtBlock =
        Some (currentBlock st + getExpiresInSeconds st (md_expiration_block metadata) div blockDuration st)\<rparr>"

text \<open>The chunk entities of a media id in a ledger, and the \<open>chunk_index\<close> attributes
  persisted with them, in ledger order.\<close>

definition is_chunk_of :: "string \<Rightarrow> Entity \<Rightarrow> bool" where
  "is_chunk_of media_id entity =
     (has_attr entity ''type'' ''image_chunk'' \<and> has_attr entity ''media_id'' media_id)"

definition persisted_indices :: "string \<Rightarrow> Entity list \<Rightarrow> AttrValue option list" where
  "persisted_indices media_id ledger =
     map (\<lambda>entity. entityAttribute entity ''chunk_index'') (filter (is_chunk_of media_id) ledger)"

text \<open>A small service for the examples: chunks of two bytes, an empty ledger, a wallet
  that owns what it writes, and the upload of a five-byte file by \<open>alice\<close>.\<close>

definition example_config :: Config where
  "example_config = CONFIG\<lparr>CHUNK_SIZE := 2\<rparr>"

definition example_storage :: ArkivStorage where
  "example_storage =
     \<lparr>initialized = True, walletClient = Some ''0xabc'', ownerAddress = Some ''0xabc'',
      currentBlock = 100, blockDuration = 2, entities = []\<rparr>"

definition example_service :: UploadService where
  "example_service =
     \<lparr>storage = example_storage, quotaService = Map.empty, uploadSessions = Map.empty\<rparr>"

definition example_upload :: "((UploadError + string) \<times> UploadService) option" where
  "example_upload =
     initiateUpload example_config example_env example_service [1, 2, 3, 4, 5]
       ''a.png'' ''image/png'' ''key1'' ''alice'' 7"

text \<open>The counters of \<open>alice\<close> after a call of the example service.\<close>

definition quota_check_after :: "((UploadError + string) \<times> UploadService) option \<Rightarrow> QuotaCheck option" where
  "quota_check_after outcome =
     map_option (\<lambda>r. fst (checkQuota example_config (quotaService (snd r)) ''alice'' 5)) outcome"

definition alice_quota :: "((UploadError + string) \<times> UploadService) option \<Rightarrow> QuotaInfo option" where
  "alice_quota outcome =
     map_option (\<lambda>r. quota_of example_config (quotaService (snd r)) ''alice'') outcome"

text \<open>
  Further examples: the upload of the four bytes \<open>abcd\<close>, the upload of an empty file,
  and a second call with the same key by a user one upload below the daily limit. A
  ledger can lose its k-th entity (expiry) or have the payload of its k-th entity altered
  (corruption) before the file is read back.
\<close>

definition abcd_upload :: "((UploadError + string) \<times> UploadService) option" where
  "abcd_upload =
     initiateUpload example_config example_env example_service [0x61, 0x62, 0x63, 0x64]
       ''a.png'' ''image/png'' ''key1'' ''alice'' 7"

definition empty_upload :: "((UploadError + string) \<times> UploadService) option" where
  "empty_upload =
     initiateUpload example_config example_env example_service []
       ''a.png'' ''image/png'' ''key1'' ''alice'' 7"

definition busy_service :: UploadService where
  "busy_service =
     example_service\<lparr>quotaService :=
       [''alice'' \<mapsto> \<lparr>used_bytes = 0, max_bytes = 104857600, uploads_today = 9,
                          max_uploads_per_day = 10\<rparr>]\<rparr>"

definition busy_first :: "((UploadError + string) \<times> UploadService) option" where
  "busy_first =
     initiateUpload example_config example_env busy_service [1, 2, 3, 4, 5]
       ''a.png'' ''image/png'' ''key1'' ''alice'' 7"

text \<open>A second call with the arguments of the example upload, in the state an earlier
  call left; and an environment whose ledger refuses the second write.\<close>

definition replay :: "((UploadError + string) \<times> UploadService) option
    \<Rightarrow> ((UploadError + string) \<times> UploadService) option" where
  "replay outcome =
     (case outcome of
        None \<Rightarrow> None
      | Some (res, svc) \<Rightarrow>
          initiateUpload example_config example_env svc [1, 2, 3, 4, 5]
            ''a.png'' ''image/png'' ''key1'' ''alice'' 7)"

definition failing_env :: Env where
  "failing_env = example_env\<lparr>createEntity_ok := (\<lambda>k. k \<noteq> 1)\<rparr>"

definition failed_upload :: "((UploadError + string) \<times> UploadService) option" where
  "failed_upload =
     initiateUpload example_config failing_env example_service [1, 2, 3, 4, 5]
       ''a.png'' ''image/png'' ''key1'' ''alice'' 7"

definition expire_entity :: "nat \<Rightarrow> UploadService \<Rightarrow> UploadService" where
  "expire_entity k svc =
     svc\<lparr>storage := (storage svc)\<lparr>entities :=
       take k (entities (storage svc)) @ drop (Suc k) (entities (storage svc))\<rparr>\<rparr>"

definition alter_payload :: "nat \<Rightarrow> Buffer \<Rightarrow> UploadService \<Rightarrow> UploadService" where
  "alter_payload k bytes svc =
     svc\<lparr>storage := (storage svc)\<lparr>entities :=
       (entities (storage svc))
         [k := (entities (storage svc) ! k)\<lparr>ent_payload := Some (RawPayload bytes)\<rparr>]\<rparr>\<rparr>"

definition getMedia_after ::
  "(UploadService \<Rightarrow> UploadService) \<Rightarrow> ((UploadError + string) \<times> UploadService) option \<Rightarrow> string
     \<Rightarrow> (GetMediaError + Buffer) option" where
  "getMedia_after change outcome media_id =
     map_option (\<lambda>r. map_sum id fst (getMedia example_env (change (snd r)) media_id)) outcome"

text \<open>The service as the upload of \<open>abcd\<close> leaves it, and the metadata it stored.\<close>

definition abcd_service :: UploadService where
  "abcd_service = (case abcd_upload of None \<Rightarrow> example_service | Some (res, svc) \<Rightarrow> svc)"

definition abcd_metadata :: MediaMetadata where
  "abcd_metadata =
     \<lparr>md_media_id = ''uuid-0'', md_filename = ''a.png'', md_content_type = ''image/png'',
      md_file_size = 4, md_chunk_count = 2,
      md_checksum = ''88d4266fd4e6338d13b845fcf289579d209c897823b9217da3e161936f031589'',
      md_created_at = 1700000000001, md_expiration_block = 850302400, md_btl_days = 7\<rparr>"

definition corrupted_service :: UploadService where
  "corrupted_service = alter_payload 1 [0x63, 0x65] abcd_service"

lemma replicate_numeral: "replicate (numeral k) x = x # replicate (pred_numeral k) x"
  by (simp add: numeral_eq_Suc)

lemmas sha_eval = hex_def hex_byte_def hex_digit_def sha256_def sha_pad_def
  replicate_numeral be64_def be32_def compress_def schedule_def K256_def H256_init_def add32_def
  rotr_def sigma0_def sigma1_def Sigma0_def Sigma1_def Ch_def Maj_def Let_def

lemmas b64_eval = from_base64_def b64_value_def b64_char_def b64_alphabet_def Let_def

text \<open>The two standard test vectors of SHA-256: the empty message and \<open>abc\<close>.\<close>

lemma sha256_empty:
  "hex (sha256 []) = ''e3b0c44298fc1c149afbf4c8996fb92427ae41e4649b934ca495991b7852b855''"
  by (simp add: sha_eval)

lemma sha256_abc:
  "hex (sha256 [0x61, 0x62, 0x63]) =
     ''ba7816bf8f01cfea414140de5dae2223b00361a396177a9cb410ff61f20015ad''"
  by (simp add: sha_eval)

lemma base64_Man: "toString_base64 [0x4d, 0x61, 0x6e, 0x4d, 0x61] = ''TWFuTWE=''"
  by (simp add: b64_eval)

lemma from_base64_Man: "from_base64 ''TWFuTWE='' = [0x4d, 0x61, 0x6e, 0x4d, 0x61]"
  by (simp add: b64_eval)

section \<open>Chunking: termination, chunk count, round trip\<close>

lemma ceil_div_gt:
  assumes "0 < C" "C * m < L"
  shows "m < Math_ceil_div L C"
proof -
  have "real m < real L / real C"
    using assms by (simp add: field_simps flip: of_nat_mult)
  then have "int m < \<lceil>real L / real C\<rceil>"
    by (simp add: less_ceiling_iff)
  then show ?thesis by (simp add: Math_ceil_div_def)
qed

lemma ceil_div_le:
  assumes "0 < C" "\<not> C * m < L"
  shows "Math_ceil_div L C \<le> m"
proof -
  have "L \<le> C * m" using assms by simp
  then have "real L \<le> real (C * m)" by (simp only: of_nat_le_iff)
  then have "real L / real C \<le> real m"
    using assms by (simp add: field_simps)
  then have "\<lceil>real L / real C\<rceil> \<le> int m"
    by (simp add: ceiling_le_iff)
  then show ?thesis unfolding Math_ceil_div_def by (simp only: nat_le_iff)
qed

lemma chunkFile_loop_Some:
  assumes "0 < C"
  shows "i = C * length chunks \<Longrightarrow>
     chunkFile_loop env C buf mid eb i chunks =
       Some (chunks @ map (chunk_at env C buf mid eb) [length chunks ..< Math_ceil_div (length buf) C])"
proof (induction "Math_ceil_div (length buf) C - length chunks" arbitrary: i chunks)
  case 0
  then have "\<not> i < length buf" using ceil_div_gt[OF assms, of "length chunks" "length buf"] by auto
  then show ?case using 0 by (subst chunkFile_loop.simps) simp
next
  case (Suc d)
  then have lt: "length chunks < Math_ceil_div (length buf) C" by simp
  then have i: "i < length buf" using ceil_div_le[OF assms, of "length chunks" "length buf"] Suc.prems by auto
  let ?c = "chunk_at env C buf mid eb (length chunks)"
  have c: "\<lparr>ce_id = randomUUID env (length chunks), ce_media_id = mid,
              ce_chunk_index = int (i div C),
              ce_data = subarray buf i (i + C),
              ce_checksum = calculateChecksum (subarray buf i (i + C)),
              ce_created_at = Date_now env (length chunks),
              ce_expiration_block = eb\<rparr> = ?c"
    using assms Suc.prems by (simp add: chunk_at_def subarray_def mult.commute)
  have "chunkFile_loop env C buf mid eb (i + C) (chunks @ [?c]) =
       Some ((chunks @ [?c]) @ map (chunk_at env C buf mid eb) [length (chunks @ [?c]) ..< Math_ceil_div (length buf) C])"
    using Suc.hyps(2) Suc.prems by (intro Suc.hyps(1)) auto
  then show ?case using i lt c
    by (subst chunkFile_loop.simps) (simp add: upt_conv_Cons)
qed

lemma chunkFile_Some:
  "0 < CHUNK_SIZE cfg \<Longrightarrow>
   chunkFile cfg env buf mid eb =
     Some (map (chunk_at env (CHUNK_SIZE cfg) buf mid eb) [0 ..< Math_ceil_div (length buf) (CHUNK_SIZE cfg)])"
  using chunkFile_loop_Some[of "CHUNK_SIZE cfg" 0 "[]" env buf mid eb] by (simp add: chunkFile_def)

lemma concat_windows:
  "concat (map (\<lambda>k. take C (drop (k * C) buf)) [0..<n]) = take (n * C) buf"
proof (induction n)
  case 0
  then show ?case by simp
next
  case (Suc n)
  have "take (n * C) buf @ take C (drop (n * C) buf) = take (n * C + C) buf"
    by (simp add: take_add)
  then show ?case using Suc by (simp add: add.commute)
qed

lemma ceil_div_covers: "0 < C \<Longrightarrow> L \<le> Math_ceil_div L C * C"
  using ceil_div_gt[of C "Math_ceil_div L C" L] by (auto simp: mult.commute not_less[symmetric])

lemma sort_key_sorted_id: "sorted (map f xs) \<Longrightarrow> sort_key f xs = xs"
  by (induction xs) (auto simp: insort_is_Cons)

lemma reassemble_windows:
  assumes "0 < C"
  shows "reassembleFile (map (chunk_at env C buf mid eb) [0 ..< Math_ceil_div (length buf) C]) = buf"
proof -
  let ?cs = "map (chunk_at env C buf mid eb) [0 ..< Math_ceil_div (length buf) C]"
  have "sorted (map ce_chunk_index ?cs)"
    by (auto simp: sorted_map sorted_wrt_iff_nth_less chunk_at_def comp_def)
  then have "sort_key ce_chunk_index ?cs = ?cs"
    by (rule sort_key_sorted_id)
  moreover have "map ce_data ?cs = map (\<lambda>k. take C (drop (k * C) buf)) [0 ..< Math_ceil_div (length buf) C]"
    by (simp add: chunk_at_def)
  ultimately have "reassembleFile ?cs = take (Math_ceil_div (length buf) C * C) buf"
    by (simp only: reassembleFile_def concat_windows)
  then show ?thesis
    using ceil_div_covers[OF assms, of "length buf"] by simp
qed

text \<open>
  C1. Chunking a buffer with a positive chunk size returns, and reassembling the chunks
  gives back the buffer, byte for byte. This holds for every length, so in particular
  for \<open>0 < length B \<le> MAX_FILE_SIZE\<close> and the chunk size of \<open>CONFIG\<close>.
\<close>

theorem C1_roundtrip:
  assumes "0 < CHUNK_SIZE cfg"
  shows "\<exists>chunks. chunkFile cfg env B media_id expiration_block = Some chunks
           \<and> reassembleFile chunks = B"
  using assms by (simp add: chunkFile_Some reassemble_windows)


theorem C1_roundtrip_witness:
  "0 < CHUNK_SIZE CONFIG \<and>
   (\<exists>chunks. chunkFile CONFIG example_env [1, 2, 3] ''m'' 7 = Some chunks
      \<and> reassembleFile chunks = [1, 2, 3])"
proof -
  have h: "0 < CHUNK_SIZE CONFIG" by (simp add: CONFIG_def)
  show ?thesis using h C1_roundtrip [OF h] by blast
qed

lemma ceil_div_mod_nonzero:
  assumes "0 < C" "L mod C \<noteq> 0"
  shows "Math_ceil_div L C = Suc (L div C)"
proof -
  have "C * (L div C) < L"
    using assms by (metis mult_div_mod_eq less_add_same_cancel1 neq0_conv)
  then have "L div C < Math_ceil_div L C"
    using assms(1) by (rule ceil_div_gt[rotated])
  moreover have "\<not> C * Suc (L div C) < L"
    using assms(1) by (metis dividend_less_times_div mult.commute mult_Suc not_less_iff_gr_or_eq add.commute)
  then have "Math_ceil_div L C \<le> Suc (L div C)"
    using assms(1) by (rule ceil_div_le[rotated])
  ultimately show ?thesis by simp
qed

lemma full_chunk_length:
  assumes "0 < C" "Suc k < Math_ceil_div (length B) C"
  shows "length (ce_data (chunk_at env C B mid eb k)) = C"
proof -
  have "C * Suc k < length B"
    using assms ceil_div_le[of C "Suc k" "length B"] by auto
  then show ?thesis by (simp add: chunk_at_def mult.commute)
qed

lemma last_chunk_length:
  assumes "0 < C" "length B mod C \<noteq> 0"
  shows "length (ce_data (chunk_at env C B mid eb (Math_ceil_div (length B) C - 1))) = length B mod C"
proof -
  have "length B - length B div C * C = length B mod C"
    by (simp add: modulo_nat_def mult.commute)
  moreover have "length B mod C < C" using assms by simp
  ultimately show ?thesis
    using assms by (simp add: chunk_at_def ceil_div_mod_nonzero)
qed

text \<open>
  C7. With a positive chunk size, chunking a buffer \<open>B\<close> gives exactly
  \<open>ceil(length B / CHUNK_SIZE)\<close> chunks; every chunk but the last has exactly
  \<open>CHUNK_SIZE\<close> bytes; the last has \<open>length B mod CHUNK_SIZE\<close> bytes when that is
  not zero; and the \<open>chunk_count\<close> of the metadata built for \<open>B\<close> is the same number.
\<close>

theorem C7_chunk_count:
  assumes "0 < CHUNK_SIZE cfg"
  shows "\<exists>chunks. chunkFile cfg env B media_id expiration_block = Some chunks
     \<and> length chunks = Math_ceil_div (length B) (CHUNK_SIZE cfg)
     \<and> (\<forall>k. Suc k < length chunks \<longrightarrow> length (ce_data (chunks ! k)) = CHUNK_SIZE cfg)
     \<and> (length B mod CHUNK_SIZE cfg \<noteq> 0 \<longrightarrow>
          length (ce_data (last chunks)) = length B mod CHUNK_SIZE cfg)
     \<and> md_chunk_count (createMetadata cfg env' media_id filename content_type B btl_days
          expiration_block) = length chunks"
proof -
  let ?C = "CHUNK_SIZE cfg"
  let ?n = "Math_ceil_div (length B) ?C"
  let ?cs = "map (chunk_at env ?C B media_id expiration_block) [0 ..< ?n]"
  have 1: "chunkFile cfg env B media_id expiration_block = Some ?cs"
    using assms by (rule chunkFile_Some)
  have 2: "length ?cs = ?n" by simp
  have 3: "\<forall>k. Suc k < length ?cs \<longrightarrow> length (ce_data (?cs ! k)) = ?C"
    using assms by (simp add: full_chunk_length)
  have 4: "length B mod ?C \<noteq> 0 \<longrightarrow> length (ce_data (last ?cs)) = length B mod ?C"
  proof
    assume nz: "length B mod ?C \<noteq> 0"
    then have "?n = Suc (length B div ?C)" using assms by (simp add: ceil_div_mod_nonzero)
    then have "last ?cs = chunk_at env ?C B media_id expiration_block (?n - 1)"
      by (simp add: last_map)
    then show "length (ce_data (last ?cs)) = length B mod ?C"
      using last_chunk_length[OF assms nz] by simp
  qed
  have 5: "md_chunk_count (createMetadata cfg env' media_id filename content_type B btl_days
          expiration_block) = length ?cs"
    by (simp add: createMetadata_def)
  from 1 2 3 4 5 show ?thesis by blast
qed

theorem C7_chunk_count_witness:
  "0 < CHUNK_SIZE (CONFIG\<lparr>CHUNK_SIZE := 2\<rparr>) \<and>
   (\<exists>chunks. chunkFile (CONFIG\<lparr>CHUNK_SIZE := 2\<rparr>) example_env [1, 2, 3, 4, 5] ''m'' 7 = Some chunks
     \<and> length chunks = 3
     \<and> length (ce_data (chunks ! 0)) = 2 \<and> length (ce_data (chunks ! 1)) = 2
     \<and> length (ce_data (last chunks)) = 1
     \<and> md_chunk_count (createMetadata (CONFIG\<lparr>CHUNK_SIZE := 2\<rparr>) example_env ''m'' ''f'' ''image/png''
          [1, 2, 3, 4, 5] 7 7) = 3)"
proof -
  have h: "0 < CHUNK_SIZE (CONFIG\<lparr>CHUNK_SIZE := 2\<rparr>)" by simp
  have n: "Math_ceil_div (length [1::byte, 2, 3, 4, 5]) 2 = 3" by (simp add: Math_ceil_div_def)
  obtain chunks where c: "chunkFile (CONFIG\<lparr>CHUNK_SIZE := 2\<rparr>) example_env [1, 2, 3, 4, 5] ''m'' 7 = Some chunks"
     "length chunks = Math_ceil_div (length [1::byte, 2, 3, 4, 5]) (CHUNK_SIZE (CONFIG\<lparr>CHUNK_SIZE := 2\<rparr>))"
     "\<forall>k. Suc k < length chunks \<longrightarrow> length (ce_data (chunks ! k)) = CHUNK_SIZE (CONFIG\<lparr>CHUNK_SIZE := 2\<rparr>)"
     "length [1::byte, 2, 3, 4, 5] mod CHUNK_SIZE (CONFIG\<lparr>CHUNK_SIZE := 2\<rparr>) \<noteq> 0 \<longrightarrow>
          length (ce_data (last chunks)) = length [1::byte, 2, 3, 4, 5] mod CHUNK_SIZE (CONFIG\<lparr>CHUNK_SIZE := 2\<rparr>)"
     "md_chunk_count (createMetadata (CONFIG\<lparr>CHUNK_SIZE := 2\<rparr>) example_env ''m'' ''f'' ''image/png''
          [1, 2, 3, 4, 5] 7 7) = length chunks"
    using C7_chunk_count [OF h, where env = example_env and B = "[1, 2, 3, 4, 5]" and media_id = "''m''"
        and expiration_block = 7 and env' = example_env and filename = "''f''"
        and content_type = "''image/png''" and btl_days = 7]
    by blast
  from c(2) have "length chunks = Math_ceil_div (length [1::byte, 2, 3, 4, 5]) 2" by simp
  with n have l: "length chunks = 3" by (simp only:)
  from c(3) l have "length (ce_data (chunks ! 0)) = 2" "length (ce_data (chunks ! 1)) = 2" by simp_all
  moreover from c(4) have "length (ce_data (last chunks)) = 1" by simp
  ultimately show ?thesis using h c(1) c(5) l by auto
qed

section \<open>Checksums and determinism\<close>

lemma sha_round_length: "length st = 8 \<Longrightarrow> length (sha_round st kw) = 8"
proof -
  assume "length st = 8"
  then obtain a b c d e f g h where "st = [a, b, c, d, e, f, g, h]"
    by (auto simp: eval_nat_numeral length_Suc_conv)
  then show ?thesis by (cases kw) (simp add: Let_def)
qed

lemma foldl_sha_round_length: "length st = 8 \<Longrightarrow> length (foldl sha_round st kws) = 8"
  by (induction kws arbitrary: st) (simp_all add: sha_round_length)

lemma compress_length: "length hs = 8 \<Longrightarrow> length (compress hs block) = 8"
  by (simp add: compress_def foldl_sha_round_length)

lemma sha_blocks_length: "length hs = 8 \<Longrightarrow> length (sha_blocks hs ws) = 8"
  by (induction hs ws rule: sha_blocks.induct) (simp_all add: compress_length)

lemma sha256_length: "length (sha256 m) = 32"
proof -
  have "length (concat (map (\<lambda>w. be32 (nat w)) ws)) = 4 * length ws" for ws :: "u32 list"
    by (induction ws) (simp_all add: be32_def)
  then show ?thesis
    by (simp add: sha256_def sha_blocks_length H256_init_def)
qed

lemma hex_digit_lower: "hex_digit n \<in> set ''0123456789abcdef''"
proof -
  have "n mod 16 < length ''0123456789abcdef''" by simp
  then show ?thesis unfolding hex_digit_def by (rule nth_mem)
qed

lemma hex_lower: "set (hex bs) \<subseteq> set ''0123456789abcdef''"
  using hex_digit_lower by (auto simp: hex_def hex_byte_def)

lemma hex_length: "length (hex bs) = 2 * length bs"
  by (induction bs) (simp_all add: hex_def hex_byte_def)

lemma calculateChecksum_format:
  "length (calculateChecksum buf) = 64 \<and> set (calculateChecksum buf) \<subseteq> set ''0123456789abcdef''"
  using hex_lower [of "sha256 buf"]
  by (simp add: calculateChecksum_def hex_length sha256_length)

text \<open>
  C9. Chunking is deterministic in what it derives from the buffer: two runs on the same
  buffer, whatever identifiers and dates the runs draw, return chunk lists with the same
  indices, the same payloads and the same checksums, in the same order; each checksum is
  the SHA-256 of the chunk's payload in 64 lowercase hexadecimal digits.
\<close>

theorem C9_chunking_deterministic:
  assumes "0 < CHUNK_SIZE cfg"
  shows "\<exists>run1 run2.
           chunkFile cfg env1 B media_id expiration_block = Some run1
         \<and> chunkFile cfg env2 B media_id expiration_block = Some run2
         \<and> map ce_chunk_index run1 = map ce_chunk_index run2
         \<and> map ce_data run1 = map ce_data run2
         \<and> map ce_checksum run1 = map ce_checksum run2
         \<and> (\<forall>c \<in> set run1. ce_checksum c = hex (sha256 (ce_data c))
               \<and> length (ce_checksum c) = 64
               \<and> set (ce_checksum c) \<subseteq> set ''0123456789abcdef'')"
proof -
  let ?n = "Math_ceil_div (length B) (CHUNK_SIZE cfg)"
  let ?run = "\<lambda>env. map (chunk_at env (CHUNK_SIZE cfg) B media_id expiration_block) [0 ..< ?n]"
  have 1: "chunkFile cfg env1 B media_id expiration_block = Some (?run env1)"
    and 2: "chunkFile cfg env2 B media_id expiration_block = Some (?run env2)"
    using assms by (simp_all add: chunkFile_Some)
  have 3: "map ce_chunk_index (?run env1) = map ce_chunk_index (?run env2)"
    and 4: "map ce_data (?run env1) = map ce_data (?run env2)"
    and 5: "map ce_checksum (?run env1) = map ce_checksum (?run env2)"
    by (simp_all add: chunk_at_def)
  have 6: "\<forall>c \<in> set (?run env1). ce_checksum c = hex (sha256 (ce_data c))
               \<and> length (ce_checksum c) = 64
               \<and> set (ce_checksum c) \<subseteq> set ''0123456789abcdef''"
    using calculateChecksum_format by (auto simp: chunk_at_def calculateChecksum_def)
  from 1 2 3 4 5 6 show ?thesis by blast
qed


theorem C9_chunking_deterministic_witness:
  "0 < CHUNK_SIZE (CONFIG\<lparr>CHUNK_SIZE := 2\<rparr>) \<and>
   (\<exists>run1 run2.
       chunkFile (CONFIG\<lparr>CHUNK_SIZE := 2\<rparr>) example_env [1, 2, 3] ''m'' 7 = Some run1
     \<and> chunkFile (CONFIG\<lparr>CHUNK_SIZE := 2\<rparr>)
           (example_env\<lparr>randomUUID := \<lambda>k. ''other'', Date_now := \<lambda>k. 5\<rparr>) [1, 2, 3] ''m'' 7 = Some run2
     \<and> length run1 = 2
     \<and> map ce_chunk_index run1 = map ce_chunk_index run2
     \<and> map ce_data run1 = map ce_data run2
     \<and> map ce_checksum run1 = map ce_checksum run2
     \<and> (\<forall>c \<in> set run1. length (ce_checksum c) = 64))"
proof -
  have h: "0 < CHUNK_SIZE (CONFIG\<lparr>CHUNK_SIZE := 2\<rparr>)" by simp
  have n: "Math_ceil_div (length [1::byte, 2, 3]) 2 = 2" by (simp add: Math_ceil_div_def)
  obtain run1 run2 where r:
    "chunkFile (CONFIG\<lparr>CHUNK_SIZE := 2\<rparr>) example_env [1, 2, 3] ''m'' 7 = Some run1"
    "chunkFile (CONFIG\<lparr>CHUNK_SIZE := 2\<rparr>)
       (example_env\<lparr>randomUUID := \<lambda>k. ''other'', Date_now := \<lambda>k. 5\<rparr>) [1, 2, 3] ''m'' 7 = Some run2"
    "map ce_chunk_index run1 = map ce_chunk_index run2"
    "map ce_data run1 = map ce_data run2"
    "map ce_checksum run1 = map ce_checksum run2"
    "\<forall>c \<in> set run1. ce_checksum c = hex (sha256 (ce_data c))
        \<and> length (ce_checksum c) = 64 \<and> set (ce_checksum c) \<subseteq> set ''0123456789abcdef''"
    using C9_chunking_deterministic [OF h, where ?env1.0 = example_env
        and ?env2.0 = "example_env\<lparr>randomUUID := \<lambda>k. ''other'', Date_now := \<lambda>k. 5\<rparr>"
        and B = "[1, 2, 3]" and media_id = "''m''" and expiration_block = 7]
    by blast
  have "length run1 = Math_ceil_div (length [1::byte, 2, 3]) 2"
    using r(1) chunkFile_Some [OF h, of example_env "[1, 2, 3]" "''m''" 7] by auto
  with n have "length run1 = 2" by (simp only:)
  with h r show ?thesis by blast
qed

section \<open>Quota admission\<close>

lemma getUserQuota_idem:
  "fst (getUserQuota cfg (snd (getUserQuota cfg userUsage userId)) v) = fst (getUserQuota cfg userUsage v)"
  by (simp add: getUserQuota_def Let_def split: option.splits)

lemma checkQuota_snd: "snd (checkQuota cfg userUsage userId fileSize) = snd (getUserQuota cfg userUsage userId)"
  by (simp add: checkQuota_def split: prod.splits)

lemma checkQuota_fst:
  "fst (checkQuota cfg userUsage userId fileSize) =
     (if used_bytes (quota_of cfg userUsage userId) + fileSize > max_bytes (quota_of cfg userUsage userId)
      then Denied (QuotaExceeded (used_bytes (quota_of cfg userUsage userId))
                                 (max_bytes (quota_of cfg userUsage userId)))
      else if uploads_today (quota_of cfg userUsage userId)
                \<ge> max_uploads_per_day (quota_of cfg userUsage userId)
      then Denied (DailyLimitExceeded (uploads_today (quota_of cfg userUsage userId))
                                      (max_uploads_per_day (quota_of cfg userUsage userId)))
      else Allowed)"
  by (simp add: checkQuota_def quota_of_def getQuotaInfo_def split: prod.splits)

text \<open>
  C5. \<open>checkQuota\<close> denies exactly when \<open>used_bytes + fileSize > max_bytes\<close> or
  \<open>uploads_today \<ge> max_uploads_per_day\<close>, and the byte quota is tested first: whenever it
  is exceeded, its reason is the one returned. A user with \<open>used_bytes + 10 = max_bytes\<close>
  is denied 11 bytes, and is allowed 10 bytes when the daily count is below its limit; a
  user with \<open>uploads_today = max_uploads_per_day\<close> is denied whatever the size. The
  check changes no counter: every user's quota reads the same afterwards, and an entry
  that exists is untouched (the only change to the map is the zeroed entry that the first
  look at an unseen user creates).
\<close>

theorem C5_checkQuota:
  "(fst (checkQuota cfg userUsage userId fileSize) \<noteq> Allowed \<longleftrightarrow>
      used_bytes (quota_of cfg userUsage userId) + fileSize > max_bytes (quota_of cfg userUsage userId)
      \<or> uploads_today (quota_of cfg userUsage userId)
           \<ge> max_uploads_per_day (quota_of cfg userUsage userId))
   \<and> (used_bytes (quota_of cfg userUsage userId) + fileSize > max_bytes (quota_of cfg userUsage userId)
        \<longrightarrow> fst (checkQuota cfg userUsage userId fileSize)
              = Denied (QuotaExceeded (used_bytes (quota_of cfg userUsage userId))
                                      (max_bytes (quota_of cfg userUsage userId))))
   \<and> (used_bytes (quota_of cfg userUsage userId) + 10 = max_bytes (quota_of cfg userUsage userId)
        \<longrightarrow> fst (checkQuota cfg userUsage userId 11) \<noteq> Allowed
            \<and> (uploads_today (quota_of cfg userUsage userId)
                  < max_uploads_per_day (quota_of cfg userUsage userId)
                 \<longrightarrow> fst (checkQuota cfg userUsage userId 10) = Allowed))
   \<and> (uploads_today (quota_of cfg userUsage userId) = max_uploads_per_day (quota_of cfg userUsage userId)
        \<longrightarrow> fst (checkQuota cfg userUsage userId fileSize) \<noteq> Allowed)
   \<and> (\<forall>v. quota_of cfg (snd (checkQuota cfg userUsage userId fileSize)) v = quota_of cfg userUsage v)
   \<and> (\<forall>v. userUsage v \<noteq> None \<longrightarrow> snd (checkQuota cfg userUsage userId fileSize) v = userUsage v)"
proof -
  have "\<forall>v. userUsage v \<noteq> None \<longrightarrow> snd (getUserQuota cfg userUsage userId) v = userUsage v"
    by (auto simp: getUserQuota_def Let_def split: option.splits)
  then show ?thesis
    by (simp add: checkQuota_fst checkQuota_snd quota_of_def getQuotaInfo_def getUserQuota_idem)
qed

theorem C5_checkQuota_witness:
  "used_bytes (quota_of CONFIG [''alice'' \<mapsto> \<lparr>used_bytes = 90, max_bytes = 100, uploads_today = 3,
       max_uploads_per_day = 10\<rparr>] ''alice'') + 10
     = max_bytes (quota_of CONFIG [''alice'' \<mapsto> \<lparr>used_bytes = 90, max_bytes = 100, uploads_today = 3,
       max_uploads_per_day = 10\<rparr>] ''alice'')
   \<and> fst (checkQuota CONFIG [''alice'' \<mapsto> \<lparr>used_bytes = 90, max_bytes = 100, uploads_today = 3,
       max_uploads_per_day = 10\<rparr>] ''alice'' 11) = Denied (QuotaExceeded 90 100)
   \<and> fst (checkQuota CONFIG [''alice'' \<mapsto> \<lparr>used_bytes = 90, max_bytes = 100, uploads_today = 3,
       max_uploads_per_day = 10\<rparr>] ''alice'' 10) = Allowed
   \<and> uploads_today (quota_of CONFIG [''bob'' \<mapsto> \<lparr>used_bytes = 0, max_bytes = 100, uploads_today = 10,
       max_uploads_per_day = 10\<rparr>] ''bob'')
     = max_uploads_per_day (quota_of CONFIG [''bob'' \<mapsto> \<lparr>used_bytes = 0, max_bytes = 100,
       uploads_today = 10, max_uploads_per_day = 10\<rparr>] ''bob'')
   \<and> fst (checkQuota CONFIG [''bob'' \<mapsto> \<lparr>used_bytes = 0, max_bytes = 100, uploads_today = 10,
       max_uploads_per_day = 10\<rparr>] ''bob'' 1) \<noteq> Allowed"
  using C5_checkQuota [of CONFIG "[''alice'' \<mapsto> \<lparr>used_bytes = 90, max_bytes = 100, uploads_today = 3,
       max_uploads_per_day = 10\<rparr>]" "''alice''" 11]
    C5_checkQuota [of CONFIG "[''bob'' \<mapsto> \<lparr>used_bytes = 0, max_bytes = 100, uploads_today = 10,
       max_uploads_per_day = 10\<rparr>]" "''bob''" 1]
  by (simp add: quota_of_def getQuotaInfo_def getUserQuota_def)

section \<open>The storage loop of an upload\<close>

lemma storeChunk_Inr:
  "storeChunk env k st chunk = Inr st' \<longleftrightarrow>
     initialized st \<and> createEntity_ok env k \<and>
     (\<exists>account. walletClient st = Some account
        \<and> st' = st\<lparr>entities := entities st @ [chunk_entity st account chunk]\<rparr>)"
  by (auto simp: storeChunk_def createEntity_def chunk_entity_def split: option.splits)

lemma storeMetadata_Inr:
  "storeMetadata env k st metadata = Inr st' \<longleftrightarrow>
     initialized st \<and> createEntity_ok env k \<and>
     (\<exists>account. walletClient st = Some account
        \<and> st' = st\<lparr>entities := entities st @ [metadata_entity st account metadata]\<rparr>)"
  by (auto simp: storeMetadata_def createEntity_def metadata_entity_def split: option.splits)

lemma chunk_entity_ledger_irrelevant [simp]:
  "chunk_entity (st\<lparr>entities := es\<rparr>) account chunk = chunk_entity st account chunk"
  by (simp add: chunk_entity_def getExpiresInSeconds_def)

lemma metadata_entity_ledger_irrelevant [simp]:
  "metadata_entity (st\<lparr>entities := es\<rparr>) account metadata = metadata_entity st account metadata"
  by (simp add: metadata_entity_def getExpiresInSeconds_def)

text \<open>When the loop ends without an error, every chunk has been appended to the ledger
  and recorded in the session.\<close>

lemma storeChunks_None:
  "storeChunks env k st session chunks = (None, st', session') \<Longrightarrow> chunks \<noteq> [] \<Longrightarrow>
     initialized st \<and> (\<forall>i < length chunks. createEntity_ok env (k + i)) \<and>
     (\<exists>account. walletClient st = Some account
        \<and> st' = st\<lparr>entities := entities st @ map (chunk_entity st account) chunks\<rparr>)"
proof (induction chunks arbitrary: k st session)
  case Nil
  then show ?case by simp
next
  case (Cons chunk chunks)
  from Cons.prems(1) obtain st1 where s1: "storeChunk env k st chunk = Inr st1"
    and rest: "storeChunks env (Suc k) st1
        (session\<lparr>us_chunks_received := insert (ce_chunk_index chunk) (us_chunks_received session)\<rparr>)
        chunks = (None, st', session')"
    by (auto split: sum.splits)
  from s1 obtain account where a: "initialized st" "createEntity_ok env k" "walletClient st = Some account"
    "st1 = st\<lparr>entities := entities st @ [chunk_entity st account chunk]\<rparr>"
    by (auto simp: storeChunk_Inr)
  show ?case
  proof (cases "chunks = []")
    case True
    with rest a show ?thesis by simp
  next
    case False
    from Cons.IH[OF rest False] a
    have b: "\<forall>i < length chunks. createEntity_ok env (Suc k + i)"
      and c: "st' = st1\<lparr>entities := entities st1 @ map (chunk_entity st1 account) chunks\<rparr>"
      by auto
    have "\<forall>i < length (chunk # chunks). createEntity_ok env (k + i)"
      using a(2) b by (auto simp: less_Suc_eq_0_disj)
    moreover have "st' = st\<lparr>entities := entities st @ map (chunk_entity st account) (chunk # chunks)\<rparr>"
      using c a(4) by simp
    ultimately show ?thesis using a by blast
  qed
qed

lemma storeChunks_None_Nil:
  "storeChunks env k st session [] = (r, st', session') \<longleftrightarrow> r = None \<and> st' = st \<and> session' = session"
  by auto

text \<open>Whatever the outcome of the loop, it only appends to the ledger.\<close>

lemma storeChunks_appends:
  "storeChunks env k st session chunks = (r, st', session') \<Longrightarrow>
     \<exists>new. st' = st\<lparr>entities := entities st @ new\<rparr>"
proof (induction chunks arbitrary: k st session)
  case Nil
  then have "st' = st\<lparr>entities := entities st @ []\<rparr>" by simp
  then show ?case by blast
next
  case (Cons chunk chunks)
  show ?case
  proof (cases "storeChunk env k st chunk")
    case (Inl e)
    with Cons.prems have "st' = st\<lparr>entities := entities st @ []\<rparr>" by simp
    then show ?thesis by blast
  next
    case (Inr st1)
    then obtain account where a: "st1 = st\<lparr>entities := entities st @ [chunk_entity st account chunk]\<rparr>"
      by (auto simp: storeChunk_Inr)
    from Cons.prems Inr obtain new where "st' = st1\<lparr>entities := entities st1 @ new\<rparr>"
      using Cons.IH by fastforce
    with a have "st' = st\<lparr>entities := entities st @ (chunk_entity st account chunk # new)\<rparr>" by simp
    then show ?thesis by blast
  qed
qed

lemma storeChunks_session:
  "storeChunks env k st session chunks = (r, st', session') \<Longrightarrow>
     us_media_id session' = us_media_id session \<and> us_completed session' = us_completed session
     \<and> us_metadata session' = us_metadata session
     \<and> us_idempotency_key session' = us_idempotency_key session
     \<and> us_chunks_received session' \<subseteq> us_chunks_received session \<union> set (map ce_chunk_index chunks)
     \<and> (r = None \<longrightarrow> us_chunks_received session'
            = us_chunks_received session \<union> set (map ce_chunk_index chunks))"
proof (induction chunks arbitrary: k st session)
  case Nil
  then show ?case by simp
next
  case (Cons chunk chunks)
  show ?case
  proof (cases "storeChunk env k st chunk")
    case (Inl e)
    with Cons.prems show ?thesis by auto
  next
    case (Inr st1)
    with Cons.prems have "storeChunks env (Suc k) st1
        (session\<lparr>us_chunks_received := insert (ce_chunk_index chunk) (us_chunks_received session)\<rparr>)
        chunks = (r, st', session')" by simp
    from Cons.IH[OF this] show ?thesis by auto
  qed
qed

lemma storeChunks_None_ledger:
  assumes "storeChunks env k st session chunks = (None, st', session')"
    and "walletClient st = Some account"
  shows "st' = st\<lparr>entities := entities st @ map (chunk_entity st account) chunks\<rparr>
         \<and> (\<forall>i < length chunks. createEntity_ok env (k + i))"
proof (cases "chunks = []")
  case True
  with assms show ?thesis by simp
next
  case False
  from storeChunks_None[OF assms(1) False] assms(2) show ?thesis by auto
qed

text \<open>The new upload always returns when the chunk size is positive, and commits usage
  exactly when it succeeds.\<close>

lemma upload_new_total:
  assumes "0 < CHUNK_SIZE cfg"
  shows "\<exists>res svc'. upload_new cfg env svc B fn ct key user btl = Some (res, svc')"
  using assms
  by (simp add: upload_new_def Let_def chunkFile_Some split: prod.splits option.splits sum.splits)

lemma upload_new_quota:
  assumes "0 < CHUNK_SIZE cfg"
    and "upload_new cfg env svc B fn ct key user btl = Some (res, svc')"
  shows "quotaService svc' =
           (case res of Inr _ \<Rightarrow> updateUsage cfg (quotaService svc) user (length B)
                      | Inl _ \<Rightarrow> quotaService svc)"
    and "\<exists>session. uploadSessions svc' = (uploadSessions svc)(key \<mapsto> session)
           \<and> us_media_id session = randomUUID env 0
           \<and> (us_completed session \<longleftrightarrow> (\<exists>mid. res = Inr mid))"
    and "\<forall>mid. res = Inr mid \<longrightarrow> mid = randomUUID env 0"
    and "\<forall>e. res = Inl e \<longrightarrow> (\<exists>se. e = UploadFailed se)"
  using assms
  by (auto simp: upload_new_def Let_def chunkFile_Some generateMediaId_def 
           split: prod.splits option.splits sum.splits dest!: storeChunks_session)


text \<open>A successful new upload has appended every chunk and then the metadata.\<close>

lemma upload_new_success_ledger:
  assumes "0 < CHUNK_SIZE cfg"
    and "upload_new cfg env svc B fn ct key user btl = Some (Inr mid, svc')"
  shows "\<exists>account. walletClient (storage svc) = Some account \<and> initialized (storage svc)
     \<and> storage svc' = (storage svc)\<lparr>entities := entities (storage svc)
          @ map (chunk_entity (storage svc) account)
              (map (chunk_at (skip_draws 1 2 env) (CHUNK_SIZE cfg) B (randomUUID env 0)
                      (calculateExpirationBlock env btl))
                 [0 ..< Math_ceil_div (length B) (CHUNK_SIZE cfg)])
          @ [metadata_entity (storage svc) account
               (createMetadata cfg (skip_draws 1 1 env) (randomUUID env 0) fn ct B btl
                  (calculateExpirationBlock env btl))]\<rparr>
     \<and> (\<forall>i \<le> Math_ceil_div (length B) (CHUNK_SIZE cfg). createEntity_ok env i)"
proof -
  let ?mid = "randomUUID env 0"
  let ?eb = "calculateExpirationBlock env btl"
  let ?n = "Math_ceil_div (length B) (CHUNK_SIZE cfg)"
  let ?chunks = "map (chunk_at (skip_draws 1 2 env) (CHUNK_SIZE cfg) B ?mid ?eb) [0 ..< ?n]"
  let ?md = "createMetadata cfg (skip_draws 1 1 env) ?mid fn ct B btl ?eb"
  let ?session = "\<lparr>us_media_id = ?mid, us_idempotency_key = key, us_metadata = ?md,
                    us_chunks_received = {}, us_completed = False\<rparr>"
  obtain r st1 session1 where sc: "storeChunks env 0 (storage svc) ?session ?chunks = (r, st1, session1)"
    by (cases "storeChunks env 0 (storage svc) ?session ?chunks") auto
  from assms sc have r: "r = None"
    by (auto simp: upload_new_def Let_def chunkFile_Some generateMediaId_def split: option.splits)
  from assms sc r obtain st2 where sm: "storeMetadata env (length ?chunks) st1 ?md = Inr st2"
    and s': "storage svc' = st2"
    by (auto simp: upload_new_def Let_def chunkFile_Some generateMediaId_def split: sum.splits)
  from storeChunks_appends [OF sc] obtain new where st1: "st1 = (storage svc)\<lparr>entities := entities (storage svc) @ new\<rparr>"
    by blast
  from sm obtain account where a: "initialized st1" "createEntity_ok env (length ?chunks)"
     "walletClient st1 = Some account"
     "st2 = st1\<lparr>entities := entities st1 @ [metadata_entity st1 account ?md]\<rparr>"
    by (auto simp: storeMetadata_Inr)
  from a st1 have w: "walletClient (storage svc) = Some account" "initialized (storage svc)" by simp_all
  from storeChunks_None_ledger [OF sc [unfolded r] w(1)]
  have l: "st1 = (storage svc)\<lparr>entities := entities (storage svc) @ map (chunk_entity (storage svc) account) ?chunks\<rparr>"
    and ok: "\<forall>i < length ?chunks. createEntity_ok env (0 + i)" by auto
  have "\<forall>i \<le> ?n. createEntity_ok env i"
    using ok a(2) by (auto simp: le_less)
  moreover have "storage svc' = (storage svc)\<lparr>entities := entities (storage svc)
          @ map (chunk_entity (storage svc) account) ?chunks
          @ [metadata_entity (storage svc) account ?md]\<rparr>"
    using s' a(4) l by simp
  ultimately show ?thesis using w by blast
qed

section \<open>Quota commit\<close>

lemma quota_of_lazy [simp]:
  "quota_of cfg (snd (getUserQuota cfg userUsage userId)) v = quota_of cfg userUsage v"
  by (simp add: quota_of_def getQuotaInfo_def getUserQuota_idem)

lemma quota_of_updateUsage:
  "quota_of cfg (updateUsage cfg userUsage userId n) v =
     (if v = userId
      then (quota_of cfg userUsage userId)
             \<lparr>used_bytes := used_bytes (quota_of cfg userUsage userId) + n,
              uploads_today := uploads_today (quota_of cfg userUsage userId) + 1\<rparr>
      else quota_of cfg userUsage v)"
  by (simp add: quota_of_def getQuotaInfo_def updateUsage_def getUserQuota_def Let_def
           split: option.splits)

lemma initiateUpload_unfold:
  "initiateUpload cfg env svc B fn ct key user btl =
     (if length B > MAX_FILE_SIZE cfg then Some (Inl (FileTooLarge (MAX_FILE_SIZE cfg)), svc)
      else if \<not> isValidImageType ct then Some (Inl UnsupportedType, svc)
      else case fst (checkQuota cfg (quotaService svc) user (length B)) of
             Denied reason \<Rightarrow>
               Some (Inl (QuotaDenied reason),
                     svc\<lparr>quotaService := snd (getUserQuota cfg (quotaService svc) user)\<rparr>)
           | Allowed \<Rightarrow>
               (case uploadSessions svc key of
                  Some existingSession \<Rightarrow>
                    Some (Inr (us_media_id existingSession),
                          svc\<lparr>quotaService := snd (getUserQuota cfg (quotaService svc) user)\<rparr>)
                | None \<Rightarrow>
                    upload_new cfg env
                      (svc\<lparr>quotaService := snd (getUserQuota cfg (quotaService svc) user)\<rparr>)
                      B fn ct key user btl))"
proof -
  obtain a b where ab: "checkQuota cfg (quotaService svc) user (length B) = (a, b)"
    by (cases "checkQuota cfg (quotaService svc) user (length B)")
  then have b: "b = snd (getUserQuota cfg (quotaService svc) user)"
    using checkQuota_snd [of cfg "quotaService svc" user "length B"] by simp
  show ?thesis
    unfolding initiateUpload_def findExistingSession_def ab b
    by (simp split: QuotaCheck.splits)
qed

lemma initiateUpload_total:
  assumes "0 < CHUNK_SIZE cfg"
  shows "\<exists>res svc'. initiateUpload cfg env svc B fn ct key user btl = Some (res, svc')"
  using upload_new_total [OF assms]
  by (simp add: initiateUpload_unfold split: QuotaCheck.splits option.splits)

text \<open>
  C6. With a positive chunk size \<open>initiateUpload\<close> always returns, and on every path
  \<open>used_bytes\<close> and \<open>uploads_today\<close> of every user do not decrease. Usage is committed
  only by a call that finds no session for the key and returns success, which it does
  after every chunk and then the metadata have been written to the ledger (each of the
  \<open>chunk_count + 1\<close> writes succeeded) and the session is marked completed:
  then the user's \<open>used_bytes\<close> grows by the full length of the buffer and
  \<open>uploads_today\<close> by exactly 1, and no other user changes. A call that returns an
  error (validation failure, quota denial, storage failure at any write) or that replays
  an existing session leaves every counter as it was.
\<close>

theorem C6_quota_commit:
  assumes "0 < CHUNK_SIZE cfg"
  shows "\<exists>res svc'. initiateUpload cfg env svc B fn ct key user btl = Some (res, svc')
      \<and> (\<forall>v. used_bytes (quota_of cfg (quotaService svc) v)
                 \<le> used_bytes (quota_of cfg (quotaService svc') v)
             \<and> uploads_today (quota_of cfg (quotaService svc) v)
                 \<le> uploads_today (quota_of cfg (quotaService svc') v))
      \<and> ((\<exists>mid. res = Inr mid) \<and> findExistingSession svc key = None \<longrightarrow>
            quota_of cfg (quotaService svc') user =
              (quota_of cfg (quotaService svc) user)
                \<lparr>used_bytes := used_bytes (quota_of cfg (quotaService svc) user) + length B,
                 uploads_today := uploads_today (quota_of cfg (quotaService svc) user) + 1\<rparr>
          \<and> (\<forall>v. v \<noteq> user \<longrightarrow>
                 quota_of cfg (quotaService svc') v = quota_of cfg (quotaService svc) v)
          \<and> (\<exists>session. uploadSessions svc' key = Some session \<and> us_completed session)
          \<and> (\<forall>i \<le> Math_ceil_div (length B) (CHUNK_SIZE cfg). createEntity_ok env i)
          \<and> length (entities (storage svc'))
              = length (entities (storage svc)) + Math_ceil_div (length B) (CHUNK_SIZE cfg) + 1)
      \<and> ((\<exists>e. res = Inl e) \<or> findExistingSession svc key \<noteq> None \<longrightarrow>
            (\<forall>v. quota_of cfg (quotaService svc') v = quota_of cfg (quotaService svc) v))"
proof -
  obtain res svc' where r: "initiateUpload cfg env svc B fn ct key user btl = Some (res, svc')"
    using initiateUpload_total [OF assms] by blast
  let ?svc1 = "svc\<lparr>quotaService := snd (getUserQuota cfg (quotaService svc) user)\<rparr>"
  consider
      (early) "quotaService svc' = quotaService svc" "\<exists>e. res = Inl e"
    | (denied) "quotaService svc' = snd (getUserQuota cfg (quotaService svc) user)" "\<exists>e. res = Inl e"
    | (replay) "quotaService svc' = snd (getUserQuota cfg (quotaService svc) user)"
               "uploadSessions svc key \<noteq> None"
    | (fresh) "uploadSessions svc key = None"
              "upload_new cfg env ?svc1 B fn ct key user btl = Some (res, svc')"
    using r by (auto simp: initiateUpload_unfold split: if_splits QuotaCheck.splits option.splits)
  then have "(\<forall>v. used_bytes (quota_of cfg (quotaService svc) v)
                 \<le> used_bytes (quota_of cfg (quotaService svc') v)
             \<and> uploads_today (quota_of cfg (quotaService svc) v)
                 \<le> uploads_today (quota_of cfg (quotaService svc') v))
      \<and> ((\<exists>mid. res = Inr mid) \<and> findExistingSession svc key = None \<longrightarrow>
            quota_of cfg (quotaService svc') user =
              (quota_of cfg (quotaService svc) user)
                \<lparr>used_bytes := used_bytes (quota_of cfg (quotaService svc) user) + length B,
                 uploads_today := uploads_today (quota_of cfg (quotaService svc) user) + 1\<rparr>
          \<and> (\<forall>v. v \<noteq> user \<longrightarrow>
                 quota_of cfg (quotaService svc') v = quota_of cfg (quotaService svc) v)
          \<and> (\<exists>session. uploadSessions svc' key = Some session \<and> us_completed session)
          \<and> (\<forall>i \<le> Math_ceil_div (length B) (CHUNK_SIZE cfg). createEntity_ok env i)
          \<and> length (entities (storage svc'))
              = length (entities (storage svc)) + Math_ceil_div (length B) (CHUNK_SIZE cfg) + 1)
      \<and> ((\<exists>e. res = Inl e) \<or> findExistingSession svc key \<noteq> None \<longrightarrow>
            (\<forall>v. quota_of cfg (quotaService svc') v = quota_of cfg (quotaService svc) v))"
  proof cases
    case early
    then show ?thesis by auto
  next
    case denied
    then show ?thesis by auto
  next
    case replay
    then show ?thesis by (auto simp: findExistingSession_def)
  next
    case fresh
    note q = upload_new_quota [OF assms fresh(2)]
    show ?thesis
    proof (cases res)
      case (Inl e)
      with q(1) show ?thesis by simp
    next
      case (Inr mid)
      with q(1) have "quotaService svc' = updateUsage cfg (quotaService ?svc1) user (length B)"
        by simp
      moreover from q(2) Inr obtain session where
        "uploadSessions svc' key = Some session" "us_completed session" by auto
      moreover from upload_new_success_ledger [OF assms fresh(2) [unfolded Inr]]
      have "\<forall>i \<le> Math_ceil_div (length B) (CHUNK_SIZE cfg). createEntity_ok env i"
        and "length (entities (storage svc'))
              = length (entities (storage svc)) + Math_ceil_div (length B) (CHUNK_SIZE cfg) + 1"
        by auto
      ultimately show ?thesis using Inr fresh(1)
        by (auto simp: quota_of_updateUsage findExistingSession_def)
    qed
  qed
  with r show ?thesis by blast
qed

section \<open>What an upload leaves in the ledger\<close>

lemma is_chunk_of_chunk_entity [simp]:
  "is_chunk_of m (chunk_entity st account chunk) \<longleftrightarrow> ce_media_id chunk = m"
  by (auto simp: is_chunk_of_def has_attr_def chunk_entity_def)

lemma is_chunk_of_metadata_entity [simp]:
  "\<not> is_chunk_of m (metadata_entity st account metadata)"
  by (auto simp: is_chunk_of_def has_attr_def metadata_entity_def)

lemma chunk_index_of_chunk_entity [simp]:
  "entityAttribute (chunk_entity st account chunk) ''chunk_index'' = Some (NumAttr (ce_chunk_index chunk + 1))"
  by (simp add: entityAttribute_def chunk_entity_def)

lemmas upload_eval = initiateUpload_unfold example_config_def CONFIG_def isValidImageType_def
       checkQuota_fst quota_of_def getQuotaInfo_def getUserQuota_def example_service_def upload_new_def
       chunkFile_Some Math_ceil_div_def Let_def chunk_at_def storeChunk_def storeMetadata_def
       example_storage_def example_env_def createEntity_def generateMediaId_def skip_draws_def
       calculateExpirationBlock_def createMetadata_def getExpiresInSeconds_def
       BLOCK_TIME_SECONDS_def BLOCKS_PER_DAY_def hex_digit_def updateUsage_def upt_conv_Cons

lemma example_upload_result:
  "map_option fst example_upload = Some (Inr ''uuid-0'')"
  by (simp add: example_upload_def upload_eval)

lemma initiateUpload_fresh:
  assumes "initiateUpload cfg env svc B fn ct key user btl = Some (Inr mid, svc')"
    and "findExistingSession svc key = None"
  shows "upload_new cfg env (svc\<lparr>quotaService := snd (getUserQuota cfg (quotaService svc) user)\<rparr>)
           B fn ct key user btl = Some (Inr mid, svc')"
  using assms
  by (auto simp: initiateUpload_unfold findExistingSession_def split: if_splits QuotaCheck.splits)

text \<open>
  \<open>chunkFile\<close> numbers its records from 0, by the position of the window in the buffer,
  and \<open>storeChunk\<close> of the class on \<open>@arkiv-network/sdk\<close> persists \<open>chunk_index + 1\<close>.
  After a successful upload under a new key through that class, the \<open>chunk_index\<close>
  attributes persisted for the media id are, in ledger order, \<open>1, 2, ..., chunk_count\<close>,
  the payload of the k-th being the k-th window; the metadata written last records the
  same \<open>chunk_count\<close>.
\<close>

lemma upload_persists_shifted_indices:
  assumes "0 < CHUNK_SIZE cfg"
    and "initiateUpload cfg env svc B fn ct key user btl = Some (Inr mid, svc')"
    and "findExistingSession svc key = None"
    and "\<forall>e \<in> set (entities (storage svc)). \<not> is_chunk_of mid e"
  shows "persisted_indices mid (entities (storage svc'))
           = map (\<lambda>k. Some (NumAttr (int k + 1))) [0 ..< Math_ceil_div (length B) (CHUNK_SIZE cfg)]
       \<and> map ent_payload (filter (is_chunk_of mid) (entities (storage svc')))
           = map (\<lambda>k. Some (RawPayload (take (CHUNK_SIZE cfg) (drop (k * CHUNK_SIZE cfg) B))))
               [0 ..< Math_ceil_div (length B) (CHUNK_SIZE cfg)]
       \<and> (\<exists>metadata. ent_payload (last (entities (storage svc'))) = Some (JsonPayload metadata)
              \<and> md_chunk_count metadata = Math_ceil_div (length B) (CHUNK_SIZE cfg))
       \<and> (\<exists>chunks. chunkFile cfg env B mid (calculateExpirationBlock env btl) = Some chunks
              \<and> map ce_chunk_index chunks
                  = map int [0 ..< Math_ceil_div (length B) (CHUNK_SIZE cfg)])"
proof -
  let ?svc1 = "svc\<lparr>quotaService := snd (getUserQuota cfg (quotaService svc) user)\<rparr>"
  let ?n = "Math_ceil_div (length B) (CHUNK_SIZE cfg)"
  have new: "upload_new cfg env ?svc1 B fn ct key user btl = Some (Inr mid, svc')"
    using assms(2,3) by (rule initiateUpload_fresh)
  have mid: "mid = randomUUID env 0"
    using upload_new_quota(3) [OF assms(1) new] by simp
  let ?chunks = "map (chunk_at (skip_draws 1 2 env) (CHUNK_SIZE cfg) B mid
                        (calculateExpirationBlock env btl)) [0 ..< ?n]"
  let ?md = "createMetadata cfg (skip_draws 1 1 env) mid fn ct B btl (calculateExpirationBlock env btl)"
  from upload_new_success_ledger [OF assms(1) new] obtain account where
    "storage svc' = (storage ?svc1)\<lparr>entities := entities (storage ?svc1)
          @ map (chunk_entity (storage ?svc1) account)
              (map (chunk_at (skip_draws 1 2 env) (CHUNK_SIZE cfg) B (randomUUID env 0)
                      (calculateExpirationBlock env btl))
                 [0 ..< Math_ceil_div (length B) (CHUNK_SIZE cfg)])
          @ [metadata_entity (storage ?svc1) account
               (createMetadata cfg (skip_draws 1 1 env) (randomUUID env 0) fn ct B btl
                  (calculateExpirationBlock env btl))]\<rparr>"
    by blast
  then have l: "entities (storage svc') = entities (storage svc)
          @ map (chunk_entity (storage svc) account) ?chunks
          @ [metadata_entity (storage svc) account ?md]"
    by (simp add: mid)
  have old: "filter (is_chunk_of mid) (entities (storage svc)) = []"
    using assms(4) by (simp add: filter_empty_conv)
  have f: "filter (is_chunk_of mid) (entities (storage svc'))
             = map (chunk_entity (storage svc) account) ?chunks"
    unfolding l by (simp add: old filter_map comp_def chunk_at_def)
  have 1: "persisted_indices mid (entities (storage svc'))
             = map (\<lambda>k. Some (NumAttr (int k + 1))) [0 ..< ?n]"
    unfolding persisted_indices_def f by (simp add: comp_def chunk_at_def)
  have 2: "map ent_payload (filter (is_chunk_of mid) (entities (storage svc')))
             = map (\<lambda>k. Some (RawPayload (take (CHUNK_SIZE cfg) (drop (k * CHUNK_SIZE cfg) B))))
                 [0 ..< ?n]"
    unfolding f by (simp add: comp_def chunk_at_def chunk_entity_def)
  have 3: "\<exists>metadata. ent_payload (last (entities (storage svc'))) = Some (JsonPayload metadata)
              \<and> md_chunk_count metadata = ?n"
    unfolding l by (simp add: metadata_entity_def createMetadata_def)
  have 4: "\<exists>chunks. chunkFile cfg env B mid (calculateExpirationBlock env btl) = Some chunks
              \<and> map ce_chunk_index chunks = map int [0 ..< ?n]"
    using assms(1) by (simp add: chunkFile_Some comp_def chunk_at_def)
  from 1 2 3 4 show ?thesis by blast
qed

text \<open>
  The class on \<open>arkiv-sdk\<close> persists the index as \<open>chunkFile\<close> numbered it: the
  \<open>chunk_index\<close> annotation of the entity its \<open>storeChunk\<close> writes is the decimal string
  of \<open>chunk.chunk_index\<close>, which reads back as that number.
\<close>

lemma digit_value_hex_digit: "n < 10 \<Longrightarrow> digit_value (hex_digit n) = Some n"
proof -
  assume "n < 10"
  then have "n \<in> {0, 1, 2, 3, 4, 5, 6, 7, 8, 9}" by auto
  then show ?thesis by (auto simp: digit_value_def hex_digit_def)
qed

lemma parse_digits_snoc:
  "parse_digits acc (cs @ [c]) =
     (case parse_digits acc cs of None \<Rightarrow> None
      | Some v \<Rightarrow> (case digit_value c of None \<Rightarrow> None | Some d \<Rightarrow> Some (10 * v + d)))"
  by (induction cs arbitrary: acc) (auto split: option.splits)

lemma parse_digits_of:
  "n < 10 ^ fuel \<Longrightarrow> parse_digits 0 (digits_of fuel n) = Some n"
proof (induction fuel arbitrary: n)
  case 0
  then show ?case by simp
next
  case (Suc fuel)
  show ?case
  proof (cases "n < 10")
    case True
    then show ?thesis by (simp add: digit_value_hex_digit)
  next
    case False
    from Suc.prems have "n div 10 < 10 ^ fuel"
      by (simp add: less_mult_imp_div_less mult.commute)
    then have "parse_digits 0 (digits_of fuel (n div 10)) = Some (n div 10)" by (rule Suc.IH)
    with False show ?thesis by (simp add: parse_digits_snoc digit_value_hex_digit)
  qed
qed

lemma Number_of_toString:
  assumes "0 \<le> n"
  shows "Number_attr (StrAttr (Number_toString n)) = n"
proof -
  have "nat n < 2 ^ nat n" by (rule less_exp)
  also have "\<dots> \<le> 10 ^ nat n" by (rule power_mono) simp_all
  also have "\<dots> \<le> 10 ^ Suc (nat n)" by simp
  finally have "parse_digits 0 (digits_of (Suc (nat n)) (nat n)) = Some (nat n)"
    by (rule parse_digits_of)
  with assms show ?thesis
    by (simp add: Number_attr_def Number_toString_def String_attr_def)
qed

lemma storeChunk_arkiv_sdk_index:
  assumes "storeChunk_arkiv_sdk env k st chunk = Inr st'"
  shows "entities st' = entities st @ [last (entities st')]
       \<and> entityAttribute (last (entities st')) ''chunk_index''
           = Some (StrAttr (Number_toString (ce_chunk_index chunk)))
       \<and> ent_payload (last (entities st')) = Some (RawPayload (ce_data chunk))"
  using assms
  by (auto simp: storeChunk_arkiv_sdk_def createEntities_def entityAttribute_def
           split: if_splits option.splits)

lemma storeChunk_arkiv_sdk_example:
  "map_sum id (\<lambda>st. map (\<lambda>entity. entityAttribute entity ''chunk_index'') (entities st))
     (storeChunk_arkiv_sdk example_env 0 example_storage
        \<lparr>ce_id = ''c0'', ce_media_id = ''uuid-0'', ce_chunk_index = 0, ce_data = [1, 2],
         ce_checksum = ''00'', ce_created_at = 0, ce_expiration_block = 200\<rparr>)
   = Inr [Some (StrAttr ''0'')]"
  by (simp add: storeChunk_arkiv_sdk_def createEntities_def entityAttribute_def
        example_storage_def example_env_def Number_toString_def String_attr_def hex_digit_def)

text \<open>
  C8. The specification has the persisted \<open>chunk_index\<close> values of a media id 0-based,
  exactly \<open>0..chunk_count-1\<close>, each the position of its window. In the class on
  \<open>@arkiv-network/sdk\<close> they are not: for the upload of five bytes in chunks of two,
  the three chunk entities in the ledger carry the indices 1, 2, 3 and not 0, 1, 2,
  although their payloads are the windows at positions 0, 1, 2.
\<close>

theorem C8_persisted_indices_shifted:
  "map_option (persisted_indices ''uuid-0'' \<circ> entities \<circ> storage \<circ> snd) example_upload
     = Some [Some (NumAttr 1), Some (NumAttr 2), Some (NumAttr 3)]
   \<and> map_option (persisted_indices ''uuid-0'' \<circ> entities \<circ> storage \<circ> snd) example_upload
     \<noteq> Some [Some (NumAttr 0), Some (NumAttr 1), Some (NumAttr 2)]
   \<and> map_option (map ent_payload \<circ> filter (is_chunk_of ''uuid-0'') \<circ> entities \<circ> storage \<circ> snd)
         example_upload
       = Some [Some (RawPayload [1, 2]), Some (RawPayload [3, 4]), Some (RawPayload [5])]"
  by (simp add: example_upload_def upload_eval persisted_indices_def is_chunk_of_def has_attr_def
        entityAttribute_def)

theorem C6_quota_commit_witness:
  "0 < CHUNK_SIZE example_config
   \<and> findExistingSession example_service ''key1'' = None
   \<and> map_option fst example_upload = Some (Inr ''uuid-0'')
   \<and> alice_quota (Some (Inl UnsupportedType, example_service))
       = Some \<lparr>used_bytes = 0, max_bytes = 104857600, uploads_today = 0, max_uploads_per_day = 10\<rparr>
   \<and> alice_quota example_upload
       = Some \<lparr>used_bytes = 5, max_bytes = 104857600, uploads_today = 1, max_uploads_per_day = 10\<rparr>"
proof -
  have h1: "0 < CHUNK_SIZE example_config" by (simp add: example_config_def)
  have h3: "findExistingSession example_service ''key1'' = None"
    by (simp add: findExistingSession_def example_service_def)
  have q0: "quota_of example_config (quotaService example_service) ''alice''
         = \<lparr>used_bytes = 0, max_bytes = 104857600, uploads_today = 0, max_uploads_per_day = 10\<rparr>"
    by (simp add: quota_of_def getQuotaInfo_def getUserQuota_def example_service_def
          example_config_def CONFIG_def Let_def)
  from C6_quota_commit [OF h1, of example_env example_service "[1, 2, 3, 4, 5]" "''a.png''"
      "''image/png''" "''key1''" "''alice''" 7]
  obtain res svc' where r: "example_upload = Some (res, svc')"
    and c: "(\<exists>mid. res = Inr mid) \<and> findExistingSession example_service ''key1'' = None \<longrightarrow>
            quota_of example_config (quotaService svc') ''alice'' =
              (quota_of example_config (quotaService example_service) ''alice'')
                \<lparr>used_bytes := used_bytes (quota_of example_config (quotaService example_service) ''alice'')
                     + length [1::byte, 2, 3, 4, 5],
                 uploads_today := uploads_today (quota_of example_config (quotaService example_service) ''alice'') + 1\<rparr>"
    unfolding example_upload_def by blast
  from r have "map_option fst example_upload = map_option fst (Some (res, svc'))"
    by (rule arg_cong)
  then have "res = Inr ''uuid-0''" by (simp add: example_upload_result)
  with c h3 q0 have "quota_of example_config (quotaService svc') ''alice''
      = \<lparr>used_bytes = 5, max_bytes = 104857600, uploads_today = 1, max_uploads_per_day = 10\<rparr>"
    by simp
  with h1 h3 q0 \<open>res = Inr ''uuid-0''\<close> show ?thesis
    unfolding alice_quota_def r by simp
qed

section \<open>Reading back: missing and corrupted chunks\<close>

lemma sha256_ab:
  "hex (sha256 [0x61, 0x62]) = ''fb8e20fc2e4c3f248c60c39bd652f3c1347298bb977b8b4d5903b85055620603''"
  by (simp add: sha_eval)

lemma sha256_abcd:
  "hex (sha256 [0x61, 0x62, 0x63, 0x64]) =
     ''88d4266fd4e6338d13b845fcf289579d209c897823b9217da3e161936f031589''"
  by (simp add: sha_eval)

lemma sha256_abce:
  "hex (sha256 [0x61, 0x62, 0x63, 0x65]) =
     ''84e73dc50f2be9000ab2a87f8026c1f45e1fec954af502e9904031645b190d4f''"
  by (simp add: sha_eval)

lemmas read_eval = getMedia_after_def getMedia_def getMetadata_def getAllChunks_def query_def
  has_attr_def toMediaChunk_def entityAttribute_def Number_attr_def String_attr_def
  payload_bytes_def toChunkEntity_def reassembleFile_def validateFileIntegrity_def
  expire_entity_def alter_payload_def enumerate_eq_zip

text \<open>
  C2. The specification asks for the incomplete error whenever one of the
  \<open>chunk_count\<close> chunks is missing. \<open>getAllChunks\<close> of this backend never compares what the query returns with
  \<open>chunk_count\<close>, and \<open>getMedia\<close> reports missing chunks only for an empty list. After
  the upload of \<open>abcd\<close> in two chunks, with the second chunk expired, the first chunk is
  reassembled alone and the call fails with the integrity error, not the incomplete one.
\<close>

theorem C2_missing_chunk_reported_as_integrity_failure:
  "getMedia_after (expire_entity 1) abcd_upload ''uuid-0'' = Some (Inl IntegrityCheckFailed)"
  by (simp add: abcd_upload_def upload_eval read_eval b64_eval calculateChecksum_def
        sha256_ab sha256_abcd)

lemma abcd_read_back:
  "getMedia_after id abcd_upload ''uuid-0'' = Some (Inr [0x61, 0x62, 0x63, 0x64])"
  by (simp add: abcd_upload_def upload_eval read_eval b64_eval)

lemma abcd_corrupted:
  "getMedia_after (alter_payload 1 [0x63, 0x65]) abcd_upload ''uuid-0'' = Some (Inl IntegrityCheckFailed)"
  by (simp add: abcd_upload_def upload_eval read_eval b64_eval calculateChecksum_def
        sha256_abce sha256_abcd)

lemma getMedia_cases:
  "getMedia env svc media_id =
     (case getMetadata env 0 (storage svc) media_id of
        Inl e \<Rightarrow> Inl (RetrievalFailed e)
      | Inr None \<Rightarrow> Inl MediaNotFound
      | Inr (Some metadata) \<Rightarrow>
          (case getAllChunks env 1 (storage svc) media_id of
             Inl e \<Rightarrow> Inl (RetrievalFailed e)
           | Inr chunks \<Rightarrow>
               if chunks = [] then Inl ChunksNotFound
               else if md_checksum metadata
                         \<noteq> calculateChecksum (reassembleFile (map (toChunkEntity env) (enumerate 0 chunks)))
               then Inl IntegrityCheckFailed
               else Inr (reassembleFile (map (toChunkEntity env) (enumerate 0 chunks)), metadata)))"
  by (simp add: getMedia_def validateFileIntegrity_def Let_def
           split: sum.splits option.splits)

text \<open>
  C4. \<open>getMedia\<close> returns a buffer only when the lowercase hexadecimal SHA-256 of that
  buffer, all 64 digits of it, equals \<open>metadata.checksum\<close>. When the metadata and a
  non-empty list of chunks are read, the outcome is decided by that comparison alone:
  a digest that differs gives the integrity error and no buffer; an equal digest gives
  the reassembled buffer together with the metadata.
\<close>

theorem C4_integrity_check:
  "(\<forall>buffer metadata. getMedia env svc media_id = Inr (buffer, metadata) \<longrightarrow>
       md_checksum metadata = hex (sha256 buffer)
       \<and> getMetadata env 0 (storage svc) media_id = Inr (Some metadata))
   \<and> (\<forall>metadata chunks.
         getMetadata env 0 (storage svc) media_id = Inr (Some metadata)
         \<and> getAllChunks env 1 (storage svc) media_id = Inr chunks \<and> chunks \<noteq> [] \<longrightarrow>
         (hex (sha256 (reassembleFile (map (toChunkEntity env) (enumerate 0 chunks))))
            \<noteq> md_checksum metadata
          \<longrightarrow> getMedia env svc media_id = Inl IntegrityCheckFailed)
         \<and> (hex (sha256 (reassembleFile (map (toChunkEntity env) (enumerate 0 chunks))))
              = md_checksum metadata
            \<longrightarrow> getMedia env svc media_id
                  = Inr (reassembleFile (map (toChunkEntity env) (enumerate 0 chunks)), metadata)))
   \<and> length (hex (sha256 buffer')) = 64"
proof -
  have 1: "\<forall>buffer metadata. getMedia env svc media_id = Inr (buffer, metadata) \<longrightarrow>
       md_checksum metadata = hex (sha256 buffer)
       \<and> getMetadata env 0 (storage svc) media_id = Inr (Some metadata)"
    by (auto simp: getMedia_cases calculateChecksum_def split: sum.splits option.splits if_splits)
  have 2: "\<forall>metadata chunks.
         getMetadata env 0 (storage svc) media_id = Inr (Some metadata)
         \<and> getAllChunks env 1 (storage svc) media_id = Inr chunks \<and> chunks \<noteq> [] \<longrightarrow>
         (hex (sha256 (reassembleFile (map (toChunkEntity env) (enumerate 0 chunks))))
            \<noteq> md_checksum metadata
          \<longrightarrow> getMedia env svc media_id = Inl IntegrityCheckFailed)
         \<and> (hex (sha256 (reassembleFile (map (toChunkEntity env) (enumerate 0 chunks))))
              = md_checksum metadata
            \<longrightarrow> getMedia env svc media_id
                  = Inr (reassembleFile (map (toChunkEntity env) (enumerate 0 chunks)), metadata))"
    by (auto simp: getMedia_cases calculateChecksum_def)
  have 3: "length (hex (sha256 buffer')) = 64"
    by (simp add: hex_length sha256_length)
  from 1 2 3 show ?thesis by blast
qed

text \<open>A successful read needs a chunk entity of the media id in the ledger.\<close>

lemma sort_key_Nil_iff: "sort_key f xs = [] \<longleftrightarrow> xs = []"
  by (metis length_0_conv length_sort)

lemma getAllChunks_nonempty:
  assumes "getAllChunks env k st media_id = Inr chunks" "chunks \<noteq> []"
  shows "\<exists>e \<in> set (entities st). is_chunk_of media_id e"
proof -
  from assms obtain ownerAddr where
    "query st ownerAddr ''image_chunk'' media_id 1000 \<noteq> []"
    by (auto simp: getAllChunks_def sort_key_Nil_iff split: if_splits option.splits)
  then obtain e where "e \<in> set (query st ownerAddr ''image_chunk'' media_id 1000)"
    by (cases "query st ownerAddr ''image_chunk'' media_id 1000") auto
  then have "e \<in> set (entities st)" "is_chunk_of media_id e"
    by (auto simp: query_def is_chunk_of_def dest: in_set_takeD)
  then show ?thesis by blast
qed

lemma getMedia_needs_chunk:
  assumes "getMedia env svc media_id = Inr r"
  shows "\<exists>e \<in> set (entities (storage svc)). is_chunk_of media_id e"
proof -
  from assms obtain chunks where "getAllChunks env 1 (storage svc) media_id = Inr chunks" "chunks \<noteq> []"
    by (auto simp: getMedia_cases split: sum.splits option.splits if_splits)
  then show ?thesis by (rule getAllChunks_nonempty)
qed

lemmas abcd_eval = abcd_service_def corrupted_service_def abcd_upload_def abcd_metadata_def
  upload_eval read_eval

lemma abcd_service_metadata:
  "getMetadata example_env 0 (storage abcd_service) ''uuid-0'' = Inr (Some abcd_metadata)"
  "getMetadata example_env 0 (storage corrupted_service) ''uuid-0'' = Inr (Some abcd_metadata)"
  by (simp_all add: abcd_eval calculateChecksum_def sha256_abcd)

lemma abcd_service_chunks:
  "\<not> isl (getAllChunks example_env 1 (storage abcd_service) ''uuid-0'')"
  "projr (getAllChunks example_env 1 (storage abcd_service) ''uuid-0'') \<noteq> []"
  "reassembleFile (map (toChunkEntity example_env)
     (enumerate 0 (projr (getAllChunks example_env 1 (storage abcd_service) ''uuid-0''))))
     = [0x61, 0x62, 0x63, 0x64]"
  by (simp_all add: abcd_eval b64_eval)

lemma corrupted_service_chunks:
  "\<not> isl (getAllChunks example_env 1 (storage corrupted_service) ''uuid-0'')"
  "projr (getAllChunks example_env 1 (storage corrupted_service) ''uuid-0'') \<noteq> []"
  "reassembleFile (map (toChunkEntity example_env)
     (enumerate 0 (projr (getAllChunks example_env 1 (storage corrupted_service) ''uuid-0''))))
     = [0x61, 0x62, 0x63, 0x65]"
  by (simp_all add: abcd_eval b64_eval)

theorem C4_integrity_check_witness:
  "getMetadata example_env 0 (storage abcd_service) ''uuid-0'' = Inr (Some abcd_metadata)
   \<and> projr (getAllChunks example_env 1 (storage abcd_service) ''uuid-0'') \<noteq> []
   \<and> hex (sha256 [0x61, 0x62, 0x63, 0x64]) = md_checksum abcd_metadata
   \<and> getMedia example_env abcd_service ''uuid-0'' = Inr ([0x61, 0x62, 0x63, 0x64], abcd_metadata)
   \<and> getMetadata example_env 0 (storage corrupted_service) ''uuid-0'' = Inr (Some abcd_metadata)
   \<and> projr (getAllChunks example_env 1 (storage corrupted_service) ''uuid-0'') \<noteq> []
   \<and> hex (sha256 [0x61, 0x62, 0x63, 0x65]) \<noteq> md_checksum abcd_metadata
   \<and> getMedia example_env corrupted_service ''uuid-0'' = Inl IntegrityCheckFailed"
proof -
  let ?good = "getAllChunks example_env 1 (storage abcd_service) ''uuid-0''"
  let ?bad = "getAllChunks example_env 1 (storage corrupted_service) ''uuid-0''"
  have g: "?good = Inr (projr ?good)" using abcd_service_chunks(1) by (cases ?good) auto
  have b: "?bad = Inr (projr ?bad)" using corrupted_service_chunks(1) by (cases ?bad) auto
  have eq: "hex (sha256 [0x61, 0x62, 0x63, 0x64]) = md_checksum abcd_metadata"
    by (simp add: sha256_abcd abcd_metadata_def)
  have ne: "hex (sha256 [0x61, 0x62, 0x63, 0x65]) \<noteq> md_checksum abcd_metadata"
    by (simp add: sha256_abce abcd_metadata_def)
  from C4_integrity_check [of example_env abcd_service "''uuid-0''"]
  have "getMedia example_env abcd_service ''uuid-0'' = Inr ([0x61, 0x62, 0x63, 0x64], abcd_metadata)"
    using abcd_service_metadata(1) g abcd_service_chunks(2,3) eq by metis
  moreover from C4_integrity_check [of example_env corrupted_service "''uuid-0''"]
  have "getMedia example_env corrupted_service ''uuid-0'' = Inl IntegrityCheckFailed"
    using abcd_service_metadata(2) b corrupted_service_chunks(2,3) ne by metis
  ultimately show ?thesis
    using abcd_service_metadata abcd_service_chunks(2) corrupted_service_chunks(2) eq ne by blast
qed

section \<open>Idempotent replay\<close>

lemma initiateUpload_opened:
  assumes "initiateUpload cfg env svc B fn ct key user btl = Some (res, svc')"
    and "findExistingSession svc key = None"
    and "(\<exists>mid. res = Inr mid) \<or> (\<exists>se. res = Inl (UploadFailed se))"
  shows "\<not> MAX_FILE_SIZE cfg < length B \<and> isValidImageType ct
       \<and> fst (checkQuota cfg (quotaService svc) user (length B)) = Allowed
       \<and> upload_new cfg env (svc\<lparr>quotaService := snd (getUserQuota cfg (quotaService svc) user)\<rparr>)
            B fn ct key user btl = Some (res, svc')"
  using assms
  by (auto simp: initiateUpload_unfold findExistingSession_def split: if_splits QuotaCheck.splits)

lemma checkQuota_depends_on_counters:
  assumes "quota_of cfg q1 user = quota_of cfg q2 user"
  shows "fst (checkQuota cfg q1 user n) = fst (checkQuota cfg q2 user n)"
  by (simp add: checkQuota_fst assms)

lemma initiateUpload_replay:
  assumes "\<not> MAX_FILE_SIZE cfg < length B" "isValidImageType ct"
    and "uploadSessions svc key = Some session"
  shows "initiateUpload cfg env svc B fn ct key user btl =
     (case fst (checkQuota cfg (quotaService svc) user (length B)) of
        Allowed \<Rightarrow> Some (Inr (us_media_id session),
                         svc\<lparr>quotaService := snd (getUserQuota cfg (quotaService svc) user)\<rparr>)
      | Denied reason \<Rightarrow> Some (Inl (QuotaDenied reason),
                         svc\<lparr>quotaService := snd (getUserQuota cfg (quotaService svc) user)\<rparr>))"
  using assms by (simp add: initiateUpload_unfold split: QuotaCheck.splits)

text \<open>
  C3 (as amended). Let a first call of \<open>initiateUpload\<close> with a key that has no session
  return. If it returned success and the second call with the same key and file passes
  the quota check in the state the first call left, the second call returns success with
  the same \<open>media_id\<close>, writes nothing and opens no session, and after both calls
  \<open>uploads_today\<close> is one more than before the first (\<open>used_bytes\<close> has grown once by the
  length of the file). If the quota check of the second call denies, the second call
  returns that quota error: the quota check precedes the session lookup. If the first
  call failed while storing (the session is left incomplete), the second call returns
  success with the \<open>media_id\<close> of that session, with no error, and the counters are as
  they were before the first call.
\<close>

theorem C3_idempotent_replay:
  assumes "0 < CHUNK_SIZE cfg"
    and "findExistingSession svc key = None"
    and "initiateUpload cfg env1 svc B fn ct key user btl = Some (res1, svc1)"
  shows "(res1 = Inr mid \<and> fst (checkQuota cfg (quotaService svc1) user (length B)) = Allowed \<longrightarrow>
            (\<exists>svc2. initiateUpload cfg env2 svc1 B fn ct key user btl = Some (Inr mid, svc2)
               \<and> storage svc2 = storage svc1 \<and> uploadSessions svc2 = uploadSessions svc1
               \<and> uploads_today (quota_of cfg (quotaService svc2) user)
                   = uploads_today (quota_of cfg (quotaService svc) user) + 1
               \<and> used_bytes (quota_of cfg (quotaService svc2) user)
                   = used_bytes (quota_of cfg (quotaService svc) user) + length B))
       \<and> (res1 = Inr mid \<and> fst (checkQuota cfg (quotaService svc1) user (length B)) = Denied reason \<longrightarrow>
            (\<exists>svc2. initiateUpload cfg env2 svc1 B fn ct key user btl
                      = Some (Inl (QuotaDenied reason), svc2)))
       \<and> (res1 = Inl (UploadFailed se) \<longrightarrow>
            (\<exists>svc2 session. initiateUpload cfg env2 svc1 B fn ct key user btl
                      = Some (Inr (randomUUID env1 0), svc2)
               \<and> uploadSessions svc1 key = Some session \<and> \<not> us_completed session
               \<and> storage svc2 = storage svc1 \<and> uploadSessions svc2 = uploadSessions svc1
               \<and> uploads_today (quota_of cfg (quotaService svc2) user)
                   = uploads_today (quota_of cfg (quotaService svc) user)
               \<and> used_bytes (quota_of cfg (quotaService svc2) user)
                   = used_bytes (quota_of cfg (quotaService svc) user)))"
proof -
  let ?svc0 = "svc\<lparr>quotaService := snd (getUserQuota cfg (quotaService svc) user)\<rparr>"
  let ?second = "initiateUpload cfg env2 svc1 B fn ct key user btl"
  let ?q1 = "snd (getUserQuota cfg (quotaService svc1) user)"
  { assume opened: "(\<exists>mid. res1 = Inr mid) \<or> (\<exists>se. res1 = Inl (UploadFailed se))"
    from initiateUpload_opened [OF assms(3,2) opened]
    have v: "\<not> MAX_FILE_SIZE cfg < length B" "isValidImageType ct"
      and a: "fst (checkQuota cfg (quotaService svc) user (length B)) = Allowed"
      and new: "upload_new cfg env1 ?svc0 B fn ct key user btl = Some (res1, svc1)"
      by simp_all
    from upload_new_quota(2) [OF assms(1) new] obtain session where
      s: "uploadSessions svc1 key = Some session" "us_media_id session = randomUUID env1 0"
         "us_completed session \<longleftrightarrow> (\<exists>mid. res1 = Inr mid)"
      by auto
    note q = upload_new_quota(1) [OF assms(1) new]
    note m = upload_new_quota(3) [OF assms(1) new]
    note r = initiateUpload_replay [OF v s(1), where env = env2 and fn = fn and user = user and btl = btl]
    have c1: "res1 = Inr mid \<longrightarrow> mid = randomUUID env1 0"
      using m by simp
    have c2: "?second = (case fst (checkQuota cfg (quotaService svc1) user (length B)) of
              Allowed \<Rightarrow> Some (Inr (randomUUID env1 0), svc1\<lparr>quotaService := ?q1\<rparr>)
            | Denied reason \<Rightarrow> Some (Inl (QuotaDenied reason), svc1\<lparr>quotaService := ?q1\<rparr>))"
      using r by (simp only: s(2))
    have c3: "\<forall>v. quota_of cfg (quotaService svc1) v =
               (case res1 of
                  Inr _ \<Rightarrow> (if v = user
                            then (quota_of cfg (quotaService svc) user)
                                   \<lparr>used_bytes := used_bytes (quota_of cfg (quotaService svc) user) + length B,
                                    uploads_today := uploads_today (quota_of cfg (quotaService svc) user) + 1\<rparr>
                            else quota_of cfg (quotaService svc) v)
                | Inl _ \<Rightarrow> quota_of cfg (quotaService svc) v)"
      using q by (cases res1) (simp_all add: quota_of_updateUsage)
    have c4: "\<exists>session. uploadSessions svc1 key = Some session
              \<and> (us_completed session \<longleftrightarrow> (\<exists>mid. res1 = Inr mid))"
      using s by blast
    note c1 c2 c3 c4 a
  } note core = this
  have 1: "res1 = Inr mid \<and> fst (checkQuota cfg (quotaService svc1) user (length B)) = Allowed \<longrightarrow>
            (\<exists>svc2. ?second = Some (Inr mid, svc2)
               \<and> storage svc2 = storage svc1 \<and> uploadSessions svc2 = uploadSessions svc1
               \<and> uploads_today (quota_of cfg (quotaService svc2) user)
                   = uploads_today (quota_of cfg (quotaService svc) user) + 1
               \<and> used_bytes (quota_of cfg (quotaService svc2) user)
                   = used_bytes (quota_of cfg (quotaService svc) user) + length B)"
  proof
    assume h: "res1 = Inr mid \<and> fst (checkQuota cfg (quotaService svc1) user (length B)) = Allowed"
    then have o: "(\<exists>mid. res1 = Inr mid) \<or> (\<exists>se. res1 = Inl (UploadFailed se))" by blast
    note c = core [OF o]
    from c(1) h have mid: "mid = randomUUID env1 0" by simp
    from c(2) h have sec: "?second = Some (Inr mid, svc1\<lparr>quotaService := ?q1\<rparr>)"
      by (simp add: mid)
    from c(3) h have "quota_of cfg (quotaService (svc1\<lparr>quotaService := ?q1\<rparr>)) user
        = (quota_of cfg (quotaService svc) user)
             \<lparr>used_bytes := used_bytes (quota_of cfg (quotaService svc) user) + length B,
              uploads_today := uploads_today (quota_of cfg (quotaService svc) user) + 1\<rparr>"
      by simp
    with sec show "\<exists>svc2. ?second = Some (Inr mid, svc2)
               \<and> storage svc2 = storage svc1 \<and> uploadSessions svc2 = uploadSessions svc1
               \<and> uploads_today (quota_of cfg (quotaService svc2) user)
                   = uploads_today (quota_of cfg (quotaService svc) user) + 1
               \<and> used_bytes (quota_of cfg (quotaService svc2) user)
                   = used_bytes (quota_of cfg (quotaService svc) user) + length B"
      by simp
  qed
  have 2: "res1 = Inr mid \<and> fst (checkQuota cfg (quotaService svc1) user (length B)) = Denied reason \<longrightarrow>
            (\<exists>svc2. ?second = Some (Inl (QuotaDenied reason), svc2))"
  proof
    assume h: "res1 = Inr mid \<and> fst (checkQuota cfg (quotaService svc1) user (length B)) = Denied reason"
    then have o: "(\<exists>mid. res1 = Inr mid) \<or> (\<exists>se. res1 = Inl (UploadFailed se))" by blast
    from core(2) [OF o] h show "\<exists>svc2. ?second = Some (Inl (QuotaDenied reason), svc2)" by simp
  qed
  have 3: "res1 = Inl (UploadFailed se) \<longrightarrow>
            (\<exists>svc2 session. ?second = Some (Inr (randomUUID env1 0), svc2)
               \<and> uploadSessions svc1 key = Some session \<and> \<not> us_completed session
               \<and> storage svc2 = storage svc1 \<and> uploadSessions svc2 = uploadSessions svc1
               \<and> uploads_today (quota_of cfg (quotaService svc2) user)
                   = uploads_today (quota_of cfg (quotaService svc) user)
               \<and> used_bytes (quota_of cfg (quotaService svc2) user)
                   = used_bytes (quota_of cfg (quotaService svc) user))"
  proof
    assume f: "res1 = Inl (UploadFailed se)"
    then have o: "(\<exists>mid. res1 = Inr mid) \<or> (\<exists>se. res1 = Inl (UploadFailed se))" by blast
    note k = core [OF o]
    from k(3) f have c: "(\<forall>v. quota_of cfg (quotaService svc1) v = quota_of cfg (quotaService svc) v)"
      by simp
    note a = k(5)
    note sec = k(2)
    from k(4) f have ses: "\<exists>session. uploadSessions svc1 key = Some session \<and> \<not> us_completed session"
      by auto
    from c have "fst (checkQuota cfg (quotaService svc1) user (length B)) = Allowed"
      using checkQuota_depends_on_counters [of cfg "quotaService svc1" user "quotaService svc" "length B"] a
      by simp
    with sec c ses show "\<exists>svc2 session. ?second = Some (Inr (randomUUID env1 0), svc2)
               \<and> uploadSessions svc1 key = Some session \<and> \<not> us_completed session
               \<and> storage svc2 = storage svc1 \<and> uploadSessions svc2 = uploadSessions svc1
               \<and> uploads_today (quota_of cfg (quotaService svc2) user)
                   = uploads_today (quota_of cfg (quotaService svc) user)
               \<and> used_bytes (quota_of cfg (quotaService svc2) user)
                   = used_bytes (quota_of cfg (quotaService svc) user)"
      by auto
  qed
  from 1 2 3 show ?thesis by blast
qed

text \<open>
  C3 as the specification words it fails: a user with nine uploads of the ten allowed uploads a file,
  which succeeds and makes ten; the second call with the same key and file is rejected
  by the quota check, which runs before the session lookup.
\<close>

theorem C3_counterexample:
  "map_option fst busy_first = Some (Inr ''uuid-0'')
   \<and> map_option fst (replay busy_first) = Some (Inl (QuotaDenied (DailyLimitExceeded 10 10)))"
  by (simp add: busy_first_def replay_def busy_service_def upload_eval)

lemma example_upload_quota_after: "quota_check_after example_upload = Some Allowed"
  by (simp add: quota_check_after_def example_upload_def upload_eval)

lemma failed_upload_result:
  "map_option fst failed_upload = Some (Inl (UploadFailed CreateEntityFailed))"
  by (simp add: failed_upload_def failing_env_def upload_eval)

lemma busy_quota_after: "quota_check_after busy_first = Some (Denied (DailyLimitExceeded 10 10))"
  by (simp add: quota_check_after_def busy_first_def busy_service_def upload_eval)

lemma busy_first_result: "map_option fst busy_first = Some (Inr ''uuid-0'')"
  by (simp add: busy_first_def busy_service_def upload_eval)

lemma outcomeE:
  assumes "map_option fst outcome = Some res"
  obtains svc where "outcome = Some (res, svc)"
  using assms by (cases outcome) auto

theorem C3_idempotent_replay_witness:
  "0 < CHUNK_SIZE example_config \<and> findExistingSession example_service ''key1'' = None
   \<and> map_option fst example_upload = Some (Inr ''uuid-0'')
   \<and> quota_check_after example_upload = Some Allowed
   \<and> map_option fst (replay example_upload) = Some (Inr ''uuid-0'')
   \<and> map_option uploads_today (alice_quota (replay example_upload)) = Some 1
   \<and> map_option fst busy_first = Some (Inr ''uuid-0'')
   \<and> quota_check_after busy_first = Some (Denied (DailyLimitExceeded 10 10))
   \<and> map_option fst (replay busy_first) = Some (Inl (QuotaDenied (DailyLimitExceeded 10 10)))
   \<and> map_option fst failed_upload = Some (Inl (UploadFailed CreateEntityFailed))
   \<and> map_option fst (replay failed_upload) = Some (Inr ''uuid-0'')
   \<and> map_option uploads_today (alice_quota (replay failed_upload)) = Some 0"
proof -
  have h1: "0 < CHUNK_SIZE example_config" by (simp add: example_config_def)
  have h2: "findExistingSession example_service ''key1'' = None"
    by (simp add: findExistingSession_def example_service_def)
  have h2b: "findExistingSession busy_service ''key1'' = None"
    by (simp add: findExistingSession_def busy_service_def example_service_def)
  have q0: "uploads_today (quota_of example_config (quotaService example_service) ''alice'') = 0"
    by (simp add: quota_of_def getQuotaInfo_def getUserQuota_def example_service_def Let_def)
  have uuid: "randomUUID example_env 0 = ''uuid-0''" "randomUUID failing_env 0 = ''uuid-0''"
    by (simp_all add: example_env_def failing_env_def hex_digit_def)
  have len: "length [1::byte, 2, 3, 4, 5] = 5" by simp
  \<comment> \<open>a successful first call, then the replay\<close>
  obtain svc1 where a: "example_upload = Some (Inr ''uuid-0'', svc1)"
    using example_upload_result by (rule outcomeE)
  have a1: "initiateUpload example_config example_env example_service [1, 2, 3, 4, 5]
              ''a.png'' ''image/png'' ''key1'' ''alice'' 7 = Some (Inr ''uuid-0'', svc1)"
    using a by (simp only: example_upload_def)
  have a2: "fst (checkQuota example_config (quotaService svc1) ''alice'' 5)
              = Allowed"
    using example_upload_quota_after unfolding a quota_check_after_def by simp
  from C3_idempotent_replay [OF h1 h2 a1, where mid = "''uuid-0''" and ?env2.0 = example_env,
      unfolded len] a2
  obtain svc2 where a3: "initiateUpload example_config example_env svc1 [1, 2, 3, 4, 5]
              ''a.png'' ''image/png'' ''key1'' ''alice'' 7 = Some (Inr ''uuid-0'', svc2)"
    and a4: "uploads_today (quota_of example_config (quotaService svc2) ''alice'')
              = uploads_today (quota_of example_config (quotaService example_service) ''alice'') + 1"
    by blast
  have A: "map_option fst (replay example_upload) = Some (Inr ''uuid-0'')"
    "map_option uploads_today (alice_quota (replay example_upload)) = Some 1"
    unfolding a replay_def alice_quota_def using a3 a4 q0 by simp_all
  \<comment> \<open>a first call that exhausts the daily count, then the replay\<close>
  obtain svb where b: "busy_first = Some (Inr ''uuid-0'', svb)"
    using busy_first_result by (rule outcomeE)
  have b1: "initiateUpload example_config example_env busy_service [1, 2, 3, 4, 5]
              ''a.png'' ''image/png'' ''key1'' ''alice'' 7 = Some (Inr ''uuid-0'', svb)"
    using b by (simp only: busy_first_def)
  have b2: "fst (checkQuota example_config (quotaService svb) ''alice'' 5)
              = Denied (DailyLimitExceeded 10 10)"
    using busy_quota_after unfolding b quota_check_after_def by simp
  from C3_idempotent_replay [OF h1 h2b b1, where mid = "''uuid-0''" and ?env2.0 = example_env
      and reason = "DailyLimitExceeded 10 10", unfolded len] b2
  obtain svb2 where b3: "initiateUpload example_config example_env svb [1, 2, 3, 4, 5]
              ''a.png'' ''image/png'' ''key1'' ''alice'' 7
              = Some (Inl (QuotaDenied (DailyLimitExceeded 10 10)), svb2)"
    by blast
  have B: "map_option fst (replay busy_first) = Some (Inl (QuotaDenied (DailyLimitExceeded 10 10)))"
    unfolding b replay_def using b3 by simp
  \<comment> \<open>a first call that fails at the second write, then the replay\<close>
  obtain svf where c: "failed_upload = Some (Inl (UploadFailed CreateEntityFailed), svf)"
    using failed_upload_result by (rule outcomeE)
  have c1: "initiateUpload example_config failing_env example_service [1, 2, 3, 4, 5]
              ''a.png'' ''image/png'' ''key1'' ''alice'' 7
              = Some (Inl (UploadFailed CreateEntityFailed), svf)"
    using c by (simp only: failed_upload_def)
  from C3_idempotent_replay [OF h1 h2 c1, where se = CreateEntityFailed and ?env2.0 = example_env]
  obtain svf2 where c3: "initiateUpload example_config example_env svf [1, 2, 3, 4, 5]
              ''a.png'' ''image/png'' ''key1'' ''alice'' 7 = Some (Inr (randomUUID failing_env 0), svf2)"
    and c4: "uploads_today (quota_of example_config (quotaService svf2) ''alice'')
              = uploads_today (quota_of example_config (quotaService example_service) ''alice'')"
    by blast
  have C: "map_option fst (replay failed_upload) = Some (Inr ''uuid-0'')"
    "map_option uploads_today (alice_quota (replay failed_upload)) = Some 0"
    unfolding c replay_def alice_quota_def using c3 c4 q0 uuid by simp_all
  from h1 h2 example_upload_result example_upload_quota_after A busy_first_result busy_quota_after B
    failed_upload_result C
  show ?thesis by blast
qed

section \<open>The empty file\<close>

lemma chunkFile_empty: "chunkFile cfg env [] media_id expiration_block = Some []"
  by (simp add: chunkFile_def chunkFile_loop.simps)

lemma Math_ceil_div_zero: "Math_ceil_div 0 b = 0"
  by (simp add: Math_ceil_div_def)

lemma upload_new_empty:
  assumes "initialized (storage svc)" "walletClient (storage svc) = Some account"
    "createEntity_ok env 0"
  shows "upload_new cfg env svc [] fn ct key user btl =
     Some (Inr (randomUUID env 0),
           svc\<lparr>storage := (storage svc)\<lparr>entities := entities (storage svc) @
                   [metadata_entity (storage svc) account
                      (createMetadata cfg (skip_draws 1 1 env) (randomUUID env 0) fn ct [] btl
                         (calculateExpirationBlock env btl))]\<rparr>,
               uploadSessions := (uploadSessions svc)(key \<mapsto>
                   \<lparr>us_media_id = randomUUID env 0, us_idempotency_key = key,
                    us_metadata = createMetadata cfg (skip_draws 1 1 env) (randomUUID env 0) fn ct []
                                    btl (calculateExpirationBlock env btl),
                    us_chunks_received = {}, us_completed = True\<rparr>),
               quotaService := updateUsage cfg (quotaService svc) user 0\<rparr>)"
  using assms
  by (simp add: upload_new_def chunkFile_empty Let_def generateMediaId_def storeMetadata_def
        createEntity_def metadata_entity_def)

lemma has_attr_metadata_entity:
  "has_attr (metadata_entity st account metadata) ''type'' t \<longleftrightarrow> t = ''image_metadata''"
  "has_attr (metadata_entity st account metadata) ''media_id'' m \<longleftrightarrow> m = md_media_id metadata"
  by (auto simp: has_attr_def metadata_entity_def)

lemma getAllChunks_without_chunks:
  assumes "\<forall>e \<in> set (entities st). \<not> is_chunk_of media_id e"
    and "initialized st" and "query_ok env k"
  shows "getAllChunks env k st media_id = Inr []"
proof -
  have "query st ownerAddr ''image_chunk'' media_id 1000 = []" for ownerAddr
    using assms(1) by (simp add: query_def is_chunk_of_def filter_empty_conv)
  then show ?thesis using assms(2,3)
    by (simp add: getAllChunks_def split: option.splits)
qed

lemma getMedia_without_chunks:
  assumes "\<forall>e \<in> set (entities (storage svc)). \<not> is_chunk_of media_id e"
    and "getMetadata env 0 (storage svc) media_id = Inr (Some found)"
    and "query_ok env 1"
  shows "getMedia env svc media_id = Inl ChunksNotFound"
proof -
  from assms(2) have "initialized (storage svc)"
    by (auto simp: getMetadata_def split: if_splits)
  with assms(1,3) have "getAllChunks env 1 (storage svc) media_id = Inr []"
    by (simp add: getAllChunks_without_chunks)
  with assms(2) show ?thesis by (simp add: getMedia_cases)
qed

text \<open>
  C10 (as amended). There is no lower bound on the size. A zero-length buffer with a
  valid type, under a new key, with an allowing quota check and a ledger that accepts
  the one write, is accepted: chunking gives no chunk, the only entity written is the
  metadata, with \<open>chunk_count = 0\<close> and \<open>file_size = 0\<close>; \<open>used_bytes\<close> stays and \<open>uploads_today\<close> grows
  by 1. The returned \<open>media_id\<close> cannot be retrieved: read back from the state the upload
  left, \<open>getMedia\<close> fails with the chunks-not-found error, and in every later state of
  a ledger without a chunk entity of that id (the upload wrote none) \<open>getMedia\<close> never
  succeeds and gives that same error whenever the metadata is still found and the chunk
  query is answered.
\<close>

theorem C10_empty_upload:
  assumes "0 < CHUNK_SIZE cfg"
    and "isValidImageType ct"
    and "fst (checkQuota cfg (quotaService svc) user 0) = Allowed"
    and "findExistingSession svc key = None"
    and "initialized (storage svc)" and "walletClient (storage svc) = Some account"
    and "createEntity_ok env 0"
  shows "\<exists>svc' metadata.
       initiateUpload cfg env svc [] fn ct key user btl = Some (Inr (randomUUID env 0), svc')
     \<and> chunkFile cfg (skip_draws 1 2 env) [] (randomUUID env 0) (calculateExpirationBlock env btl)
         = Some []
     \<and> entities (storage svc') = entities (storage svc) @ [metadata_entity (storage svc) account metadata]
     \<and> md_media_id metadata = randomUUID env 0 \<and> md_chunk_count metadata = 0
     \<and> md_file_size metadata = 0
     \<and> used_bytes (quota_of cfg (quotaService svc') user)
         = used_bytes (quota_of cfg (quotaService svc) user)
     \<and> uploads_today (quota_of cfg (quotaService svc') user)
         = uploads_today (quota_of cfg (quotaService svc) user) + 1
     \<and> (ownerAddress (storage svc) = Some account
          \<and> (\<forall>e \<in> set (entities (storage svc)). \<not> has_attr e ''media_id'' (randomUUID env 0))
          \<longrightarrow> (\<forall>env2. query_ok env2 0 \<and> query_ok env2 1 \<longrightarrow>
                 getMedia env2 svc' (randomUUID env 0) = Inl ChunksNotFound))
     \<and> (\<forall>env2 svc2.
           (\<forall>e \<in> set (entities (storage svc2)). \<not> is_chunk_of (randomUUID env 0) e)
           \<longrightarrow> (\<forall>r. getMedia env2 svc2 (randomUUID env 0) \<noteq> Inr r)
             \<and> (\<forall>found. getMetadata env2 0 (storage svc2) (randomUUID env 0) = Inr (Some found)
                    \<and> query_ok env2 1
                  \<longrightarrow> getMedia env2 svc2 (randomUUID env 0) = Inl ChunksNotFound))"
proof -
  let ?mid = "randomUUID env 0"
  let ?md = "createMetadata cfg (skip_draws 1 1 env) ?mid fn ct [] btl (calculateExpirationBlock env btl)"
  let ?svc0 = "svc\<lparr>quotaService := snd (getUserQuota cfg (quotaService svc) user)\<rparr>"
  let ?me = "metadata_entity (storage svc) account ?md"
  let ?svc' = "?svc0\<lparr>storage := (storage ?svc0)\<lparr>entities := entities (storage ?svc0) @ [?me]\<rparr>,
               uploadSessions := (uploadSessions ?svc0)(key \<mapsto>
                   \<lparr>us_media_id = ?mid, us_idempotency_key = key, us_metadata = ?md,
                    us_chunks_received = {}, us_completed = True\<rparr>),
               quotaService := updateUsage cfg (quotaService ?svc0) user 0\<rparr>"
  have up: "initiateUpload cfg env svc [] fn ct key user btl = Some (Inr ?mid, ?svc')"
    using assms(2-) upload_new_empty [of ?svc0 account env cfg fn ct key user btl]
    by (simp add: initiateUpload_unfold findExistingSession_def)
  have ledger: "entities (storage ?svc') = entities (storage svc) @ [?me]" by simp
  have md: "md_media_id ?md = ?mid" "md_chunk_count ?md = 0" "md_file_size ?md = 0"
    by (simp_all add: createMetadata_def Math_ceil_div_zero)
  have q: "used_bytes (quota_of cfg (quotaService ?svc') user)
             = used_bytes (quota_of cfg (quotaService svc) user)"
      "uploads_today (quota_of cfg (quotaService ?svc') user)
             = uploads_today (quota_of cfg (quotaService svc) user) + 1"
    by (simp_all add: quota_of_updateUsage)
  have read: "ownerAddress (storage svc) = Some account
          \<and> (\<forall>e \<in> set (entities (storage svc)). \<not> has_attr e ''media_id'' ?mid)
          \<longrightarrow> (\<forall>env2. query_ok env2 0 \<and> query_ok env2 1 \<longrightarrow>
                 getMedia env2 ?svc' ?mid = Inl ChunksNotFound)"
  proof (intro impI allI, elim conjE)
    fix env2 :: Env
    assume o: "ownerAddress (storage svc) = Some account"
      and fresh: "\<forall>e \<in> set (entities (storage svc)). \<not> has_attr e ''media_id'' ?mid"
      and ok: "query_ok env2 0" "query_ok env2 1"
    from fresh have old: "filter (\<lambda>entity. ent_owner entity = account \<and> has_attr entity ''type'' t
                              \<and> has_attr entity ''media_id'' ?mid) (entities (storage svc)) = []" for t
      by (simp add: filter_empty_conv)
    have owner: "ent_owner ?me = account" "ent_payload ?me = Some (JsonPayload ?md)"
      by (simp_all add: metadata_entity_def)
    have m: "getMetadata env2 0 (storage ?svc') ?mid = Inr (Some ?md)"
      using assms(5) o ok(1) old owner md(1)
      by (simp add: getMetadata_def query_def has_attr_metadata_entity)
    have c: "getAllChunks env2 1 (storage ?svc') ?mid = Inr []"
      using assms(5) o ok(2) old owner
      by (simp add: getAllChunks_def query_def has_attr_metadata_entity)
    show "getMedia env2 ?svc' ?mid = Inl ChunksNotFound"
      unfolding getMedia_cases m c by simp
  qed
  have never: "\<forall>env2 svc2.
           (\<forall>e \<in> set (entities (storage svc2)). \<not> is_chunk_of ?mid e)
           \<longrightarrow> (\<forall>r. getMedia env2 svc2 ?mid \<noteq> Inr r)
             \<and> (\<forall>found. getMetadata env2 0 (storage svc2) ?mid = Inr (Some found)
                    \<and> query_ok env2 1
                  \<longrightarrow> getMedia env2 svc2 ?mid = Inl ChunksNotFound)"
    using getMedia_needs_chunk getMedia_without_chunks by blast
  from up chunkFile_empty ledger md q read never show ?thesis by blast
qed


theorem C10_empty_upload_witness:
  "0 < CHUNK_SIZE example_config \<and> isValidImageType ''image/png''
   \<and> fst (checkQuota example_config (quotaService example_service) ''alice'' 0) = Allowed
   \<and> findExistingSession example_service ''key1'' = None
   \<and> initialized (storage example_service)
   \<and> walletClient (storage example_service) = Some ''0xabc''
   \<and> ownerAddress (storage example_service) = Some ''0xabc''
   \<and> createEntity_ok example_env 0 \<and> query_ok example_env 0 \<and> query_ok example_env 1
   \<and> map_option fst empty_upload = Some (Inr ''uuid-0'')
   \<and> map_option (length \<circ> entities \<circ> storage \<circ> snd) empty_upload = Some 1
   \<and> map_option used_bytes (alice_quota empty_upload) = Some 0
   \<and> map_option uploads_today (alice_quota empty_upload) = Some 1
   \<and> getMedia_after id empty_upload ''uuid-0'' = Some (Inl ChunksNotFound)"
proof -
  have h: "0 < CHUNK_SIZE example_config" "isValidImageType ''image/png''"
    "fst (checkQuota example_config (quotaService example_service) ''alice'' 0) = Allowed"
    "findExistingSession example_service ''key1'' = None"
    "initialized (storage example_service)"
    "walletClient (storage example_service) = Some ''0xabc''"
    "createEntity_ok example_env 0"
    by (simp_all add: example_config_def isValidImageType_def checkQuota_fst quota_of_def
          getQuotaInfo_def getUserQuota_def example_service_def example_storage_def
          findExistingSession_def example_env_def CONFIG_def Let_def)
  have o: "ownerAddress (storage example_service) = Some ''0xabc''"
    "\<forall>e \<in> set (entities (storage example_service)). \<not> has_attr e ''media_id'' (randomUUID example_env 0)"
    "query_ok example_env 0 \<and> query_ok example_env 1"
    by (simp_all add: example_service_def example_storage_def example_env_def)
  have q0: "used_bytes (quota_of example_config (quotaService example_service) ''alice'') = 0"
    "uploads_today (quota_of example_config (quotaService example_service) ''alice'') = 0"
    by (simp_all add: quota_of_def getQuotaInfo_def getUserQuota_def example_service_def Let_def)
  have uuid: "randomUUID example_env 0 = ''uuid-0''"
    by (simp add: example_env_def hex_digit_def)
  from C10_empty_upload [OF h, of "''a.png''" 7]
  obtain svc' metadata where
    u: "initiateUpload example_config example_env example_service [] ''a.png'' ''image/png''
          ''key1'' ''alice'' 7 = Some (Inr (randomUUID example_env 0), svc')"
    and l: "entities (storage svc') = entities (storage example_service)
              @ [metadata_entity (storage example_service) ''0xabc'' metadata]"
    and q: "used_bytes (quota_of example_config (quotaService svc') ''alice'')
              = used_bytes (quota_of example_config (quotaService example_service) ''alice'')"
           "uploads_today (quota_of example_config (quotaService svc') ''alice'')
              = uploads_today (quota_of example_config (quotaService example_service) ''alice'') + 1"
    and g: "ownerAddress (storage example_service) = Some ''0xabc''
          \<and> (\<forall>e \<in> set (entities (storage example_service)).
                 \<not> has_attr e ''media_id'' (randomUUID example_env 0))
          \<longrightarrow> (\<forall>env2. query_ok env2 0 \<and> query_ok env2 1 \<longrightarrow>
                 getMedia env2 svc' (randomUUID example_env 0) = Inl ChunksNotFound)"
    by blast
  from g o have r: "getMedia example_env svc' ''uuid-0'' = Inl ChunksNotFound"
    unfolding uuid by blast
  have e: "empty_upload = Some (Inr ''uuid-0'', svc')"
    using u unfolding empty_upload_def uuid .
  have "map_option fst empty_upload = Some (Inr ''uuid-0'')"
    "map_option (length \<circ> entities \<circ> storage \<circ> snd) empty_upload = Some 1"
    "map_option used_bytes (alice_quota empty_upload) = Some 0"
    "map_option uploads_today (alice_quota empty_upload) = Some 1"
    "getMedia_after id empty_upload ''uuid-0'' = Some (Inl ChunksNotFound)"
    unfolding e alice_quota_def getMedia_after_def using l q q0 r
    by (simp_all add: example_service_def example_storage_def)
  with h o show ?thesis by blast
qed

text \<open>
  C10 as the specification words it has \<open>getMedia\<close> fail with the chunks-not-found error
  always. It does not: once the metadata entity of the empty upload has expired from
  the ledger, \<open>getMedia\<close> for the returned \<open>media_id\<close> answers that the media was not
  found or has expired.
\<close>

theorem C10_counterexample:
  "map_option fst empty_upload = Some (Inr ''uuid-0'')
   \<and> getMedia_after (expire_entity 0) empty_upload ''uuid-0'' = Some (Inl MediaNotFound)
   \<and> getMedia_after (expire_entity 0) empty_upload ''uuid-0'' \<noteq> Some (Inl ChunksNotFound)"
  by (simp add: empty_upload_def upload_eval read_eval chunkFile_empty)

end
